theory Spec2Isabelle
  imports Complex_Main "HOL-Library.Word"
begin

section \<open>Data model (src/types.ts and the refs of src/components/LiveInterface.tsx)\<close>

text \<open>
  \<^verbatim>\<open>enum ConnectionStatus\<close> of types.ts.
\<close>

datatype ConnectionStatus = DISCONNECTED | CONNECTING | CONNECTED | ERROR

text \<open>
  \<^verbatim>\<open>interface InstructionState { action: string; message: string }\<close>. The handler fills
  both fields from \<^verbatim>\<open>call.args as any\<close>, so at run time either field can be
  \<^verbatim>\<open>undefined\<close>: \<open>None\<close> stands for \<^verbatim>\<open>undefined\<close>.
\<close>

record InstructionState =
  action :: "string option"
  message :: "string option"

text \<open>
  The three literals passed to \<^verbatim>\<open>setErrorMessage\<close> (Arabic texts in the source), and the
  empty string.
\<close>

datatype error_text =
    NoErrorText             \<comment> \<open>\<^verbatim>\<open>''\<close>\<close>
  | ConnectionErrorText     \<comment> \<open>the literal of \<^verbatim>\<open>onerror\<close>\<close>
  | MissingKeyText          \<comment> \<open>the literal of the \<^verbatim>\<open>MISSING_API_KEY\<close> branch\<close>
  | DeviceErrorText         \<comment> \<open>the literal of the other branch of the catch block\<close>

text \<open>
  An \<^verbatim>\<open>AudioBufferSourceNode\<close> on which \<^verbatim>\<open>start(when)\<close> has been called: its identity, the
  argument of \<^verbatim>\<open>start\<close> and the duration of its buffer (seconds). Nodes enter
  \<^verbatim>\<open>sourcesRef\<close> only after \<^verbatim>\<open>source.start\<close> (line 265 precedes line 266).
\<close>

record source_node =
  node_id :: nat
  startAt :: real
  duration :: real

text \<open>
  Timers of the browser. The source arms one kind of timeout (the instruction expiry,
  \<^verbatim>\<open>setCurrentInstruction(null)\<close> after 8000 ms) and one kind of interval (the frame
  sampler, every \<^verbatim>\<open>1000 / FPS\<close> ms). Timeouts and intervals share one pool of identifiers.
\<close>

datatype timer_kind =
    Timeout real      \<comment> \<open>one shot, with the time (ms) at which it is due\<close>
  | Interval real     \<comment> \<open>repeating, with its period (ms)\<close>

record timer_entry =
  timer_id :: nat
  kind :: timer_kind

text \<open>What has been handed to the session (\<^verbatim>\<open>sendRealtimeInput\<close>, \<^verbatim>\<open>sendToolResponse\<close>).\<close>

record pcm_blob =
  mimeType :: string
  samples :: "16 word list"

datatype sent =
    RealtimeAudio pcm_blob
  | RealtimeImage string string                          \<comment> \<open>mimeType, base64 data\<close>
  | ToolResponse "string option" string string           \<comment> \<open>id, name, response.result\<close>

datatype session_handle = LiveSession

text \<open>
  The component instance together with the browser objects it holds: React state, the
  refs, and the state of the browser resources the refs point to. Times are real
  numbers; where the source adds or divides two doubles the result is what the
  JavaScript engine gives, which the model takes as given (\<open>addDoubles\<close>, \<open>divDoubles\<close>).
  Comparisons and \<^verbatim>\<open>Math.max\<close> are exact.
\<close>

record session =
  \<comment> \<open>React state\<close>
  status :: ConnectionStatus
  errorMessage :: error_text
  isAiSpeaking :: bool
  currentInstruction :: "InstructionState option"
  \<comment> \<open>refs\<close>
  instructionTimeoutRef :: "nat option"
  videoRef :: "(nat \<times> nat) option"         \<comment> \<open>the video element: videoWidth, videoHeight\<close>
  canvasRef :: "(bool \<times> nat \<times> nat) option" \<comment> \<open>the canvas: has a 2d context, width, height\<close>
  streamRef :: "nat list option"            \<comment> \<open>the tracks of the MediaStream\<close>
  audioContextRef :: "nat option"
  inputContextRef :: "nat option"
  sessionRef :: "session_handle option"
  nextStartTimeRef :: real
  frameIntervalRef :: "nat option"
  sourcesRef :: "source_node set"
  \<comment> \<open>browser\<close>
  now :: real                               \<comment> \<open>wall clock, ms\<close>
  timers :: "timer_entry list"              \<comment> \<open>the armed timers\<close>
  lastTimerId :: nat
  liveTracks :: "nat set"                   \<comment> \<open>tracks not yet stopped\<close>
  closedContexts :: "nat set"               \<comment> \<open>audio contexts that have been closed\<close>
  stoppedNodes :: "nat set"                 \<comment> \<open>source nodes on which stop() has run\<close>
  lastNodeId :: nat
  startedNodes :: "source_node list"        \<comment> \<open>the calls of source.start, in order\<close>
  pendingBlobs :: "(nat \<times> nat) list"       \<comment> \<open>toBlob compressions not finished: bitmap sizes\<close>
  outbox :: "sent list"
  addDoubles :: "real \<Rightarrow> real \<Rightarrow> real"      \<comment> \<open>the sum of two doubles, as the engine rounds it\<close>
  divDoubles :: "real \<Rightarrow> real \<Rightarrow> real"      \<comment> \<open>the quotient of two doubles, likewise\<close>

section \<open>Browser operations\<close>

text \<open>
  \<^verbatim>\<open>if (ref.current)\<close> on a timer identifier: \<^verbatim>\<open>null\<close> and \<^verbatim>\<open>0\<close> are falsy.
\<close>

fun truthy_id :: "nat option \<Rightarrow> bool" where
  "truthy_id None = False"
| "truthy_id (Some n) = (n \<noteq> 0)"

text \<open>\<^verbatim>\<open>clearTimeout(id)\<close> and \<^verbatim>\<open>clearInterval(id)\<close>: the timer, if armed, is disarmed.\<close>

definition clearTimer :: "nat \<Rightarrow> session \<Rightarrow> session" where
  "clearTimer i st = st\<lparr>timers := filter (\<lambda>e. timer_id e \<noteq> i) (timers st)\<rparr>"

text \<open>
  \<^verbatim>\<open>window.setTimeout(cb, ms)\<close> and \<^verbatim>\<open>window.setInterval(cb, ms)\<close>: a fresh identifier
  greater than zero; the pair is the identifier and the new state.
\<close>

definition setTimeout :: "real \<Rightarrow> session \<Rightarrow> nat \<times> session" where
  "setTimeout ms st =
     (let i = Suc (lastTimerId st)
      in (i, st\<lparr>timers := timers st @ [\<lparr>timer_id = i, kind = Timeout (now st + ms)\<rparr>],
               lastTimerId := i\<rparr>))"

definition setInterval :: "real \<Rightarrow> session \<Rightarrow> nat \<times> session" where
  "setInterval ms st =
     (let i = Suc (lastTimerId st)
      in (i, st\<lparr>timers := timers st @ [\<lparr>timer_id = i, kind = Interval ms\<rparr>],
               lastTimerId := i\<rparr>))"

definition armed :: "nat \<Rightarrow> session \<Rightarrow> bool" where
  "armed i st = (i \<in> timer_id ` set (timers st))"

section \<open>stopSession (LiveInterface.tsx, lines 75-104)\<close>

text \<open>
  The statements of the source in their order. None of the refs is reset but
  \<^verbatim>\<open>sessionRef\<close>. \<^verbatim>\<open>close()\<close> on a closed context and \<^verbatim>\<open>stop()\<close> on a stopped track change
  nothing, and \<^verbatim>\<open>source.stop()\<close> finds every node started, so the \<^verbatim>\<open>catch\<close> is never
  entered.
\<close>

definition stopSession :: "session \<Rightarrow> session" where
  "stopSession st =
     (let st1 = (case streamRef st of
                   None \<Rightarrow> st
                 | Some tracks \<Rightarrow> st\<lparr>liveTracks := liveTracks st - set tracks\<rparr>);
          st2 = (if truthy_id (frameIntervalRef st1)
                 then clearTimer (the (frameIntervalRef st1)) st1 else st1);
          st3 = (if truthy_id (instructionTimeoutRef st2)
                 then clearTimer (the (instructionTimeoutRef st2)) st2 else st2);
          st4 = (case audioContextRef st3 of
                   None \<Rightarrow> st3
                 | Some c \<Rightarrow> st3\<lparr>closedContexts := insert c (closedContexts st3)\<rparr>);
          st5 = (case inputContextRef st4 of
                   None \<Rightarrow> st4
                 | Some c \<Rightarrow> st4\<lparr>closedContexts := insert c (closedContexts st4)\<rparr>);
          st6 = st5\<lparr>sessionRef := None\<rparr>;
          st7 = st6\<lparr>stoppedNodes := stoppedNodes st6 \<union> node_id ` sourcesRef st6\<rparr>;
          st8 = st7\<lparr>sourcesRef := {}\<rparr>
      in st8\<lparr>status := DISCONNECTED\<rparr>)"

section \<open>handleInstruction (lines 106-118) and the expiry callback\<close>

text \<open>
  The instruction is set, the timeout held in the ref (if any) is cleared, and a new
  timeout of 8000 ms is armed and stored in the ref.
\<close>

definition handleInstruction :: "InstructionState \<Rightarrow> session \<Rightarrow> session" where
  "handleInstruction instruction st =
     (let st1 = st\<lparr>currentInstruction := Some instruction\<rparr>;
          st2 = (if truthy_id (instructionTimeoutRef st1)
                 then clearTimer (the (instructionTimeoutRef st1)) st1 else st1);
          (i, st3) = setTimeout 8000 st2
      in st3\<lparr>instructionTimeoutRef := Some i\<rparr>)"

text \<open>The callback of the timeout: \<^verbatim>\<open>setCurrentInstruction(null)\<close>.\<close>

definition instruction_expired :: "session \<Rightarrow> session" where
  "instruction_expired st = st\<lparr>currentInstruction := None\<rparr>"

section \<open>Inbound messages (the \<^verbatim>\<open>onmessage\<close> callback, lines 211-281)\<close>

text \<open>
  One entry of \<^verbatim>\<open>message.toolCall.functionCalls\<close>. \<^verbatim>\<open>id\<close>, \<^verbatim>\<open>name\<close> and \<^verbatim>\<open>args\<close> are
  optional; \<^verbatim>\<open>args\<close> is an object read at the keys \<^verbatim>\<open>action\<close> and \<^verbatim>\<open>message\<close>.
\<close>

record function_call =
  fc_id :: "string option"
  fc_name :: "string option"
  fc_args :: "(string \<rightharpoonup> string) option"

text \<open>
  The parts of a \<^verbatim>\<open>LiveServerMessage\<close> the handler reads: \<^verbatim>\<open>toolCall\<close> (absent, or present
  with \<^verbatim>\<open>functionCalls\<close> absent or present), the result of the optional chain
  \<^verbatim>\<open>serverContent?.modelTurn?.parts?.[0]?.inlineData?.data\<close>, and
  \<^verbatim>\<open>serverContent?.interrupted\<close>.
\<close>

record server_message =
  toolCall :: "function_call list option option"
  audioData :: "string option"
  interrupted :: bool

datatype js_error = TypeError

text \<open>
  The handler is an \<^verbatim>\<open>async\<close> function with one \<^verbatim>\<open>await\<close> (the decoding, line 247). A
  call of it ends by throwing, by suspending at the \<^verbatim>\<open>await\<close>, or by running to its end.
\<close>

datatype outcome = Threw js_error session | Awaiting session | Finished session

fun outcome_state :: "outcome \<Rightarrow> session" where
  "outcome_state (Threw e st) = st"
| "outcome_state (Awaiting st) = st"
| "outcome_state (Finished st) = st"

text \<open>
  Lines 213-238. \<^verbatim>\<open>args.action\<close> on an absent \<^verbatim>\<open>args\<close> throws before
  \<^verbatim>\<open>handleInstruction\<close> is entered. The acknowledgment goes through
  \<^verbatim>\<open>sessionPromise.then\<close>, which is resolved once messages arrive.
\<close>

definition toolCall_branch :: "server_message \<Rightarrow> session \<Rightarrow> js_error + session" where
  "toolCall_branch msg st =
     (case toolCall msg of
        None \<Rightarrow> Inr st
      | Some None \<Rightarrow> Inr st
      | Some (Some []) \<Rightarrow> Inr st
      | Some (Some (call # rest)) \<Rightarrow>
          (case fc_name call of
             None \<Rightarrow> Inr st
           | Some name \<Rightarrow>
               if name = ''displayInstruction'' then
                 (case fc_args call of
                    None \<Rightarrow> Inl TypeError
                  | Some args \<Rightarrow>
                      (let st1 = handleInstruction
                                   \<lparr>action = args ''action'', message = args ''message''\<rparr> st
                       in Inr (st1\<lparr>outbox := outbox st1 @
                                 [ToolResponse (fc_id call) name
                                    ''Instruction displayed to user'']\<rparr>)))
               else Inr st))"

text \<open>Lines 272-280.\<close>

definition interrupted_branch :: "server_message \<Rightarrow> session \<Rightarrow> session" where
  "interrupted_branch msg st =
     (if interrupted msg then
        st\<lparr>stoppedNodes := stoppedNodes st \<union> node_id ` sourcesRef st,
           sourcesRef := {},
           nextStartTimeRef := 0,
           isAiSpeaking := False\<rparr>
      else st)"

text \<open>\<^verbatim>\<open>if (audioData)\<close>: \<^verbatim>\<open>undefined\<close> and the empty string are falsy.\<close>

fun truthy_str :: "string option \<Rightarrow> bool" where
  "truthy_str None = False"
| "truthy_str (Some s) = (s \<noteq> [])"

text \<open>
  The handler up to its \<^verbatim>\<open>await\<close>. \<open>clock\<close> is what
  \<^verbatim>\<open>audioContextRef.current.currentTime\<close> returns at line 245.
\<close>

definition onmessage_begin :: "server_message \<Rightarrow> real \<Rightarrow> session \<Rightarrow> outcome" where
  "onmessage_begin msg clock st =
     (case toolCall_branch msg st of
        Inl e \<Rightarrow> Threw e st
      | Inr st1 \<Rightarrow>
          if truthy_str (audioData msg) then
            (let st2 = st1\<lparr>isAiSpeaking := True\<rparr>
             in if audioContextRef st2 \<noteq> None
                then Awaiting (st2\<lparr>nextStartTimeRef := max (nextStartTimeRef st2) clock\<rparr>)
                else Finished (interrupted_branch msg st2))
          else Finished (interrupted_branch msg st1))"

text \<open>
  The handler from the \<^verbatim>\<open>await\<close> on, lines 252-280. \<open>dur\<close> is the \<^verbatim>\<open>duration\<close> of the
  decoded buffer. The new node is started at the value \<^verbatim>\<open>nextStartTimeRef\<close> has now
  (line 265); the output clock is not read again. The node is then tracked (line 266)
  and the offset moves on by the duration (line 268, a sum of two doubles).
\<close>

definition onmessage_resume :: "server_message \<Rightarrow> real \<Rightarrow> session \<Rightarrow> session" where
  "onmessage_resume msg dur st =
     (let i = Suc (lastNodeId st);
          source = \<lparr>node_id = i, startAt = nextStartTimeRef st, duration = dur\<rparr>;
          st1 = st\<lparr>lastNodeId := i\<rparr>;
          st2 = st1\<lparr>startedNodes := startedNodes st1 @ [source]\<rparr>;
          st3 = st2\<lparr>sourcesRef := insert source (sourcesRef st2)\<rparr>;
          st4 = st3\<lparr>nextStartTimeRef := addDoubles st3 (nextStartTimeRef st3) dur\<rparr>
      in interrupted_branch msg st4)"

text \<open>One message handled with no other handler running during its \<^verbatim>\<open>await\<close>.\<close>

definition onmessage :: "server_message \<Rightarrow> real \<Rightarrow> real \<Rightarrow> session \<Rightarrow> outcome" where
  "onmessage msg clock dur st =
     (case onmessage_begin msg clock st of
        Awaiting st1 \<Rightarrow> Finished (onmessage_resume msg dur st1)
      | Threw e st1 \<Rightarrow> Threw e st1
      | Finished st1 \<Rightarrow> Finished st1)"

text \<open>The \<^verbatim>\<open>ended\<close> listener of a source node, lines 260-263.\<close>

definition source_ended :: "source_node \<Rightarrow> session \<Rightarrow> session" where
  "source_ended source st =
     (let st1 = st\<lparr>sourcesRef := sourcesRef st - {source}\<rparr>
      in if sourcesRef st1 = {} then st1\<lparr>isAiSpeaking := False\<rparr> else st1)"

text \<open>
  The nodes a handler has started: those that \<open>st'\<close> has in \<open>startedNodes\<close> beyond the
  ones of \<open>st\<close>, each as the argument of \<^verbatim>\<open>start\<close> and the duration of its buffer.
\<close>

definition started_since :: "session \<Rightarrow> session \<Rightarrow> (real \<times> real) list" where
  "started_since st st' =
     map (\<lambda>n. (startAt n, duration n)) (drop (length (startedNodes st)) (startedNodes st'))"

text \<open>
  Handlers of several messages interleaved at their \<^verbatim>\<open>await\<close>s: a message arrives (the
  handler runs to its \<^verbatim>\<open>await\<close>), or the decoding of some message completes (its handler
  runs from the \<^verbatim>\<open>await\<close> on). \<open>schedule_log\<close> lists the calls of \<^verbatim>\<open>source.start\<close> that
  the handlers make, in the order they are made.
\<close>

datatype audio_event = Arrives server_message real | Decoded server_message real

fun schedule_log :: "audio_event list \<Rightarrow> session \<Rightarrow> (real \<times> real) list" where
  "schedule_log [] st = []"
| "schedule_log (Arrives msg clock # es) st =
     schedule_log es (outcome_state (onmessage_begin msg clock st))"
| "schedule_log (Decoded msg dur # es) st =
     started_since st (onmessage_resume msg dur st) @
     schedule_log es (onmessage_resume msg dur st)"

text \<open>A message that carries an audio payload and nothing else.\<close>

definition audio_message :: "string \<Rightarrow> server_message" where
  "audio_message data = \<lparr>toolCall = None, audioData = Some data, interrupted = False\<rparr>"

text \<open>
  Payloads \<open>(data, clock, dur)\<close> handled one after the other: each arrives when the
  output clock reads \<open>clock\<close> and is decoded before the next arrives.
\<close>

fun one_by_one :: "(string \<times> real \<times> real) list \<Rightarrow> audio_event list" where
  "one_by_one [] = []"
| "one_by_one ((data, clock, dur) # ps) =
     Arrives (audio_message data) clock # Decoded (audio_message data) dur # one_by_one ps"


section \<open>Session lifecycle (lines 282-302 and 336-342)\<close>

text \<open>\<^verbatim>\<open>onclose\<close>.\<close>

definition onclose :: "session \<Rightarrow> session" where
  "onclose st = stopSession st"

text \<open>
  The render that follows \<^verbatim>\<open>setStatus(ConnectionStatus.ERROR)\<close> returns the error panel
  (lines 344-359): the video and the canvas leave the page, and React sets both refs
  to \<^verbatim>\<open>null\<close>. The elements come back only with a render in another status, which
  needs \<^verbatim>\<open>stopSession\<close> to run first, and that clears the frame interval.
\<close>

definition render_error :: "session \<Rightarrow> session" where
  "render_error st = (st\<lparr>videoRef := None\<rparr>)\<lparr>canvasRef := None\<rparr>"

text \<open>\<^verbatim>\<open>onerror\<close>, lines 286-290, and the render that follows.\<close>

definition onerror :: "session \<Rightarrow> session" where
  "onerror st =
     render_error ((st\<lparr>errorMessage := ConnectionErrorText\<rparr>)\<lparr>status := ERROR\<rparr>)"

text \<open>
  The catch block of \<^verbatim>\<open>connectToGemini\<close>, lines 294-302, and the render that follows;
  \<open>m\<close> is \<^verbatim>\<open>error.message\<close>.
\<close>

definition connect_catch :: "string \<Rightarrow> session \<Rightarrow> session" where
  "connect_catch m st =
     (let st1 = (if m = ''MISSING_API_KEY'' then st\<lparr>errorMessage := MissingKeyText\<rparr>
                 else st\<lparr>errorMessage := DeviceErrorText\<rparr>)
      in render_error (st1\<lparr>status := ERROR\<rparr>))"

text \<open>
  The try block of \<^verbatim>\<open>connectToGemini\<close>. It starts with lines 123-124. When
  \<^verbatim>\<open>getUserMedia\<close> has given a stream with the tracks \<open>tracks\<close>, lines 161-179 store the
  stream, hand it to the video element, and create the input and the output audio
  context (\<open>inCtx\<close>, \<open>outCtx\<close>).
\<close>

definition connect_begin :: "session \<Rightarrow> session" where
  "connect_begin st = (st\<lparr>status := CONNECTING\<rparr>)\<lparr>errorMessage := NoErrorText\<rparr>"

definition connect_acquired :: "nat list \<Rightarrow> nat \<Rightarrow> nat \<Rightarrow> session \<Rightarrow> session" where
  "connect_acquired tracks inCtx outCtx st =
     (let st1 = st\<lparr>liveTracks := liveTracks st \<union> set tracks\<rparr>;
          st2 = st1\<lparr>streamRef := Some tracks\<rparr>;
          st3 = st2\<lparr>inputContextRef := Some inCtx\<rparr>
      in st3\<lparr>audioContextRef := Some outCtx\<rparr>)"

text \<open>
  The video element gets a frame of \<open>w\<close> by \<open>h\<close> pixels from its stream: \<^verbatim>\<open>videoWidth\<close>
  and \<^verbatim>\<open>videoHeight\<close> are 0 until then.
\<close>

definition video_frame :: "nat \<Rightarrow> nat \<Rightarrow> session \<Rightarrow> session" where
  "video_frame w h st =
     (case videoRef st of None \<Rightarrow> st | Some v \<Rightarrow> st\<lparr>videoRef := Some (w, h)\<rparr>)"

text \<open>The cleanup of the effect, run when the component unmounts.\<close>

definition unmount :: "session \<Rightarrow> session" where
  "unmount st = stopSession st"

text \<open>
  The component when its effect runs, in a fresh browser whose sums and quotients of
  doubles are \<open>addD\<close> and \<open>divD\<close>: the values of \<^verbatim>\<open>useState\<close> and \<^verbatim>\<open>useRef\<close> of lines
  56-72, with the video and the canvas of the first render attached to their refs (the
  video has no frame yet, the canvas has its default size of 300 by 150 and gives a 2d
  context).
\<close>

definition initial_session :: "(real \<Rightarrow> real \<Rightarrow> real) \<Rightarrow> (real \<Rightarrow> real \<Rightarrow> real) \<Rightarrow> session" where
  "initial_session addD divD =
     \<lparr>status = CONNECTING, errorMessage = NoErrorText, isAiSpeaking = False,
      currentInstruction = None, instructionTimeoutRef = None, videoRef = Some (0, 0),
      canvasRef = Some (True, 300, 150), streamRef = None, audioContextRef = None,
      inputContextRef = None, sessionRef = None, nextStartTimeRef = 0,
      frameIntervalRef = None, sourcesRef = {},
      now = 0, timers = [], lastTimerId = 0, liveTracks = {}, closedContexts = {},
      stoppedNodes = {}, lastNodeId = 0, startedNodes = [], pendingBlobs = [], outbox = [],
      addDoubles = addD, divDoubles = divD\<rparr>"

section \<open>Frame sampler (\<^verbatim>\<open>startVideoStreaming\<close>, lines 305-334)\<close>

definition FPS :: real where
  "FPS = 1.5"

definition startVideoStreaming :: "session \<Rightarrow> session" where
  "startVideoStreaming st =
     (let (i, st1) = setInterval (divDoubles st 1000 FPS) st
      in st1\<lparr>frameIntervalRef := Some i\<rparr>)"

text \<open>
  The callback of the interval. It returns at once when the canvas or the video element
  is missing, or when the canvas gives no 2d context; otherwise it sizes the canvas to
  half the video (the setters of \<^verbatim>\<open>width\<close> and \<^verbatim>\<open>height\<close> cut to an integer), draws, and
  calls \<^verbatim>\<open>toBlob\<close>, which starts one compression of the bitmap as it is now and returns
  without waiting for it.
\<close>

definition frame_tick :: "session \<Rightarrow> session" where
  "frame_tick st =
     (case canvasRef st of
        None \<Rightarrow> st
      | Some (has2d, w, h) \<Rightarrow>
          (case videoRef st of
             None \<Rightarrow> st
           | Some (vw, vh) \<Rightarrow>
               if \<not> has2d then st
               else (st\<lparr>canvasRef := Some (has2d, vw div 2, vh div 2)\<rparr>)
                      \<lparr>pendingBlobs := pendingBlobs st @ [(vw div 2, vh div 2)]\<rparr>))"

text \<open>
  The oldest compression ends and the callback given to \<^verbatim>\<open>toBlob\<close> runs. A bitmap with
  no pixels (width or height 0) gives a \<^verbatim>\<open>null\<close> blob, whatever else. Otherwise \<open>None\<close>
  is a \<^verbatim>\<open>null\<close> blob and \<open>Some d\<close> is a blob whose base64 encoding (by \<^verbatim>\<open>blobToBase64\<close>
  of utils/audioUtils) is \<open>d\<close>. The callback sends only when the blob is not
  \<^verbatim>\<open>null\<close>.
\<close>

definition toBlob_done :: "string option \<Rightarrow> session \<Rightarrow> session" where
  "toBlob_done blob st =
     (case pendingBlobs st of
        [] \<Rightarrow> st
      | (w, h) # rest \<Rightarrow>
          (let st1 = st\<lparr>pendingBlobs := rest\<rparr>
           in if w = 0 \<or> h = 0 then st1
              else case blob of
                     None \<Rightarrow> st1
                   | Some base64Data \<Rightarrow>
                       st1\<lparr>outbox := outbox st1 @ [RealtimeImage ''image/jpeg'' base64Data]\<rparr>))"

text \<open>
  \<^verbatim>\<open>onopen\<close>, lines 193-210. From now on the processor hands every captured block to
  \<^verbatim>\<open>onaudioprocess\<close> (below), and the frame interval runs.
\<close>

definition onopen :: "session \<Rightarrow> session" where
  "onopen st = startVideoStreaming (st\<lparr>status := CONNECTED\<rparr>)"

section \<open>Audio encoder (\<^verbatim>\<open>processor.onaudioprocess\<close>, lines 198-206)\<close>

text \<open>
  A number cut to an integer toward zero, as a store into a 16-bit integer array does.
\<close>

definition toward_zero :: "real \<Rightarrow> int" where
  "toward_zero r = (if r < 0 then \<lceil>r\<rceil> else \<lfloor>r\<rfloor>)"

text \<open>
  Modelled from the spec: the conversion of one sample inside \<^verbatim>\<open>createPcmBlob\<close>, which is
  defined in utils/audioUtils and is not among the sources. Section 4.2 of the
  specification: each floating-point sample is converted to a 16-bit signed integer by
  clamping to [-1,1] then scaling by 32767. A sample is taken as a real number (the
  product of a 32-bit float and 32767 is exact in double precision).
\<close>

definition floatTo16 :: "real \<Rightarrow> 16 word" where
  "floatTo16 x = word_of_int (toward_zero (max (- 1) (min 1 x) * 32767))"

text \<open>
  Modelled from the spec: \<^verbatim>\<open>createPcmBlob\<close> of utils/audioUtils, which is not among the
  sources. Section 4.2: one chunk per block, tagged as PCM audio at 16 kHz; section 6
  gives the tag as \<^verbatim>\<open>audio/pcm;rate=16000\<close>. The chunk is kept as its samples, not as the
  bytes or the base64 text that go over the wire.
\<close>

definition createPcmBlob :: "real list \<Rightarrow> pcm_blob" where
  "createPcmBlob inputData =
     \<lparr>mimeType = ''audio/pcm;rate=16000'', samples = map floatTo16 inputData\<rparr>"

text \<open>The block size given to \<^verbatim>\<open>createScriptProcessor\<close>, line 172.\<close>

definition bufferSize :: nat where
  "bufferSize = 4096"

definition onaudioprocess :: "real list \<Rightarrow> session \<Rightarrow> session" where
  "onaudioprocess inputData st =
     (let pcmBlob = createPcmBlob inputData;
          st1 = st\<lparr>sessionRef := Some LiveSession\<rparr>
      in st1\<lparr>outbox := outbox st1 @ [RealtimeAudio pcmBlob]\<rparr>)"

section \<open>The instruction card (\<^verbatim>\<open>InstructionOverlay\<close>, src/unnamed/part_001)\<close>

text \<open>\<^verbatim>\<open>String.prototype.includes\<close>.\<close>

fun str_includes :: "string \<Rightarrow> string \<Rightarrow> bool" where
  "str_includes [] sub = (sub = [])"
| "str_includes (c # cs) sub = (take (length sub) (c # cs) = sub \<or> str_includes cs sub)"

datatype icon =
    ArrowTrendingDownIcon | ArrowTrendingUpIcon | BoltIcon | SpeakerXMarkIcon
  | AdjustmentsHorizontalIcon | CheckCircleIcon | SpeakerWaveIcon

definition getIcon :: "string \<Rightarrow> icon" where
  "getIcon a =
     (if a = ''reduce_echo'' \<or> a = ''reduce_treble'' \<or> a = ''reduce_gain''
        then ArrowTrendingDownIcon
      else if a = ''increase_echo'' \<or> a = ''increase_volume'' then ArrowTrendingUpIcon
      else if a = ''fix_buzz'' then BoltIcon
      else if a = ''mute'' then SpeakerXMarkIcon
      else if a = ''check_cables'' then AdjustmentsHorizontalIcon
      else if a = ''success'' then CheckCircleIcon
      else SpeakerWaveIcon)"

datatype hint = TurnLeft | TurnRight

definition getVisualHint :: "string \<Rightarrow> hint option" where
  "getVisualHint a =
     (if str_includes a ''reduce'' then Some TurnLeft
      else if str_includes a ''increase'' then Some TurnRight
      else None)"

datatype glow = RedGlow | BlueGlow

record overlay_view =
  view_glow :: glow
  view_icon :: icon
  view_text :: "string option"
  view_hint :: "hint option"

text \<open>
  The render function. With no instruction it renders nothing. Otherwise the first
  expression evaluated is \<^verbatim>\<open>instruction.action.includes('fix')\<close>, which throws a
  \<^verbatim>\<open>TypeError\<close> when \<^verbatim>\<open>action\<close> is \<^verbatim>\<open>undefined\<close>.
\<close>

definition InstructionOverlay :: "InstructionState option \<Rightarrow> js_error + overlay_view option" where
  "InstructionOverlay instruction =
     (case instruction of
        None \<Rightarrow> Inr None
      | Some i \<Rightarrow>
          (case action i of
             None \<Rightarrow> Inl TypeError
           | Some a \<Rightarrow>
               Inr (Some \<lparr>view_glow = (if str_includes a ''fix'' then RedGlow else BlueGlow),
                          view_icon = getIcon a,
                          view_text = message i,
                          view_hint = getVisualHint a\<rparr>)))"

section \<open>The passing of time\<close>

text \<open>
  The browser runs the callback of an armed timeout once and disarms it. The only
  timeout callback of the source is the instruction expiry.
\<close>

definition fire_timeout :: "nat \<Rightarrow> session \<Rightarrow> session" where
  "fire_timeout i st = instruction_expired (clearTimer i st)"

text \<open>
  The timeouts of a list fire in turn, each only if it is still armed when its turn
  comes.
\<close>

fun run_due :: "timer_entry list \<Rightarrow> session \<Rightarrow> session" where
  "run_due [] st = st"
| "run_due (e # es) st =
     run_due es (if armed (timer_id e) st then fire_timeout (timer_id e) st else st)"

fun is_timeout :: "timer_entry \<Rightarrow> bool" where
  "is_timeout e = (case kind e of Timeout d \<Rightarrow> True | Interval p \<Rightarrow> False)"

fun is_due :: "real \<Rightarrow> timer_entry \<Rightarrow> bool" where
  "is_due t e = (case kind e of Timeout d \<Rightarrow> d \<le> t | Interval p \<Rightarrow> False)"

text \<open>
  The wall clock moves to \<open>t\<close>: the armed timeouts due by then fire, in the order in
  which they were armed (all have the same delay, so this is the order of their due
  times). The ticks of the frame interval are events of their own (below).
\<close>

definition advance_to :: "real \<Rightarrow> session \<Rightarrow> session" where
  "advance_to t st =
     (let st1 = run_due (filter (is_due t) (timers st)) st
      in st1\<lparr>now := max (now st1) t\<rparr>)"

section \<open>Events of a session\<close>

text \<open>
  What can happen to a mounted component, one callback at a time: the connection is
  set up (it begins, the stream is acquired, or it fails), the video gets a frame, a
  message arrives
  (the handler runs to its \<^verbatim>\<open>await\<close> or to its end), a decoding completes (the handler
  resumes), a source node ends, the frame interval ticks (its callback runs only while
  an interval is armed), a compression ends, an audio block is captured, the channel
  opens, reports an error or closes, the component unmounts, or the wall clock reaches
  a given time.
\<close>

datatype session_event =
    Connect
  | StreamAcquired "nat list" nat nat
  | SetupFailed string
  | VideoFrame nat nat
  | Message server_message real
  | DecodeDone server_message real
  | SourceEnded source_node
  | FrameTick
  | BlobDone "string option"
  | AudioBlock "real list"
  | ChannelOpen
  | ChannelError
  | ChannelClose
  | Unmount
  | ClockReaches real

fun step :: "session_event \<Rightarrow> session \<Rightarrow> session" where
  "step Connect st = connect_begin st"
| "step (StreamAcquired tracks inCtx outCtx) st = connect_acquired tracks inCtx outCtx st"
| "step (SetupFailed m) st = connect_catch m st"
| "step (VideoFrame w h) st = video_frame w h st"
| "step (Message msg clock) st = outcome_state (onmessage_begin msg clock st)"
| "step (DecodeDone msg dur) st = onmessage_resume msg dur st"
| "step (SourceEnded source) st = source_ended source st"
| "step FrameTick st =
     (if list_ex (\<lambda>e. \<not> is_timeout e) (timers st) then frame_tick st else st)"
| "step (BlobDone blob) st = toBlob_done blob st"
| "step (AudioBlock inputData) st = onaudioprocess inputData st"
| "step ChannelOpen st = onopen st"
| "step ChannelError st = onerror st"
| "step ChannelClose st = onclose st"
| "step Unmount st = unmount st"
| "step (ClockReaches t) st = advance_to t st"

fun run :: "session_event list \<Rightarrow> session \<Rightarrow> session" where
  "run [] st = st"
| "run (ev # evs) st = run evs (step ev st)"

text \<open>A message whose first function call names the instruction tool.\<close>

definition replaces :: "server_message \<Rightarrow> bool" where
  "replaces msg =
     (case toolCall msg of
        Some (Some (call # rest)) \<Rightarrow> fc_name call = Some ''displayInstruction''
      | _ \<Rightarrow> False)"

text \<open>The events that can set an instruction.\<close>

fun sets_instruction :: "session_event \<Rightarrow> bool" where
  "sets_instruction (Message msg clock) = replaces msg"
| "sets_instruction ev = False"

text \<open>The events that run \<^verbatim>\<open>stopSession\<close>: the close of the channel and the unmount.\<close>

fun stops :: "session_event \<Rightarrow> bool" where
  "stops ChannelClose = True"
| "stops Unmount = True"
| "stops ev = False"

text \<open>
  The events that neither set an instruction nor stop the session: every event but a
  message that calls the instruction tool, the close of the channel and the unmount.
\<close>

fun bystander :: "session_event \<Rightarrow> bool" where
  "bystander (Message msg clock) = (\<not> replaces msg)"
| "bystander ChannelClose = False"
| "bystander Unmount = False"
| "bystander ev = True"

section \<open>Vocabulary of the statements\<close>

text \<open>The tracks of the stream held in \<^verbatim>\<open>streamRef\<close>.\<close>

definition tracks_of :: "session \<Rightarrow> nat set" where
  "tracks_of st = (case streamRef st of None \<Rightarrow> {} | Some tracks \<Rightarrow> set tracks)"

text \<open>The timer a ref holds, as \<^verbatim>\<open>if (ref.current)\<close> sees it.\<close>

definition truthy_set :: "nat option \<Rightarrow> nat set" where
  "truthy_set r = (case r of None \<Rightarrow> {} | Some i \<Rightarrow> if i = 0 then {} else {i})"

definition opt_set :: "'a option \<Rightarrow> 'a set" where
  "opt_set r = (case r of None \<Rightarrow> {} | Some x \<Rightarrow> {x})"

definition armed_ids :: "session \<Rightarrow> nat set" where
  "armed_ids st = timer_id ` set (timers st)"

text \<open>
  The timers are as the component leaves them: identifiers are positive and were handed
  out by the browser, and the only armed timeout is the one held in
  \<^verbatim>\<open>instructionTimeoutRef\<close>.
\<close>

fun tracked :: "session \<Rightarrow> timer_entry \<Rightarrow> bool" where
  "tracked st e =
     (0 < timer_id e \<and> timer_id e \<le> lastTimerId st \<and>
      (case kind e of
         Timeout d \<Rightarrow> instructionTimeoutRef st = Some (timer_id e)
       | Interval p \<Rightarrow> True))"

definition expiry_tracked :: "session \<Rightarrow> bool" where
  "expiry_tracked st =
     (list_all (tracked st) (timers st) \<and>
      (case instructionTimeoutRef st of None \<Rightarrow> True | Some i \<Rightarrow> 0 < i \<and> i \<le> lastTimerId st))"


text \<open>
  The instruction \<open>i\<close> with its expiry timer \<open>k\<close> due at \<open>D\<close>: before \<open>D\<close> the
  instruction is current and its timer is the only armed timeout; from \<open>D\<close> on there is
  no instruction and no armed timeout.
\<close>

definition pending :: "InstructionState \<Rightarrow> nat \<Rightarrow> real \<Rightarrow> session \<Rightarrow> bool" where
  "pending i k D st =
     (now st < D \<and> currentInstruction st = Some i \<and>
        filter is_timeout (timers st) = [\<lparr>timer_id = k, kind = Timeout D\<rparr>]
      \<or> D \<le> now st \<and> currentInstruction st = None \<and> filter is_timeout (timers st) = [])"





section \<open>Sample states\<close>

text \<open>
  The component at mount in a browser whose sums and quotients are exact on the numbers
  of the samples below.
\<close>

definition fresh_session :: session where
  "fresh_session = initial_session (+) (/)"

text \<open>The session once the audio output context exists, before any audio has arrived.\<close>

definition listening_session :: session where
  "listening_session = fresh_session\<lparr>status := CONNECTED, audioContextRef := Some 1\<rparr>"

text \<open>
  A session in the middle of a call at wall-clock time 1000 ms: two live tracks, both
  audio contexts open, the frame interval armed, an instruction on screen whose expiry
  is due at 9000 ms, and two segments playing back to back.
\<close>

definition connected_session :: session where
  "connected_session =
     fresh_session
       \<lparr>status := CONNECTED, isAiSpeaking := True,
        currentInstruction := Some \<lparr>action = Some ''fix_buzz'', message = Some ''check the cables''\<rparr>,
        instructionTimeoutRef := Some 2, videoRef := Some (640, 480),
        canvasRef := Some (True, 300, 150), streamRef := Some [1, 2],
        audioContextRef := Some 1, inputContextRef := Some 2,
        sessionRef := Some LiveSession, nextStartTimeRef := 3 / 2,
        frameIntervalRef := Some 1,
        sourcesRef := {\<lparr>node_id = 1, startAt = 0, duration = 1\<rparr>,
                       \<lparr>node_id = 2, startAt = 1, duration = 1 / 2\<rparr>},
        now := 1000,
        timers := [\<lparr>timer_id = 1, kind = Interval (1000 / FPS)\<rparr>,
                   \<lparr>timer_id = 2, kind = Timeout 9000\<rparr>],
        lastTimerId := 2, liveTracks := {1, 2}, lastNodeId := 2,
        startedNodes := [\<lparr>node_id = 1, startAt = 0, duration = 1\<rparr>,
                         \<lparr>node_id = 2, startAt = 1, duration = 1 / 2\<rparr>]\<rparr>"

text \<open>
  The channel opens before the video has its first frame: the stream is acquired with
  two tracks, the contexts are created, and \<^verbatim>\<open>onopen\<close> arms the frame interval.
\<close>

definition opened_session :: session where
  "opened_session = run [Connect, StreamAcquired [1, 2] 2 1, ChannelOpen] fresh_session"

text \<open>
  The scenario of the specification: the instruction \<^verbatim>\<open>fix_buzz\<close> arrives at time 0 and
  the instruction \<^verbatim>\<open>success\<close> three seconds later.
\<close>

definition fix_buzz_shown :: session where
  "fix_buzz_shown =
     handleInstruction \<lparr>action = Some ''fix_buzz'', message = Some ''check the cables''\<rparr>
       opened_session"

definition success_shown :: session where
  "success_shown =
     handleInstruction \<lparr>action = Some ''success'', message = Some ''done''\<rparr>
       (advance_to 3000 fix_buzz_shown)"



text \<open>A message with two calls of the instruction tool.\<close>

definition reduce_echo_call :: function_call where
  "reduce_echo_call =
     \<lparr>fc_id = Some ''call-1'', fc_name = Some ''displayInstruction'',
      fc_args = Some [''action'' \<mapsto> ''reduce_echo'', ''message'' \<mapsto> ''turn the echo knob left'']\<rparr>"

definition increase_echo_call :: function_call where
  "increase_echo_call =
     \<lparr>fc_id = Some ''call-2'', fc_name = Some ''displayInstruction'',
      fc_args = Some [''action'' \<mapsto> ''increase_echo'', ''message'' \<mapsto> ''turn the echo knob right'']\<rparr>"

definition two_calls_message :: server_message where
  "two_calls_message =
     \<lparr>toolCall = Some (Some [reduce_echo_call, increase_echo_call]), audioData = None,
      interrupted = False\<rparr>"

text \<open>A call of the instruction tool whose arguments lack \<^verbatim>\<open>action\<close>.\<close>

definition malformed_call_message :: server_message where
  "malformed_call_message =
     \<lparr>toolCall = Some (Some [\<lparr>fc_id = Some ''call-1'', fc_name = Some ''displayInstruction'',
                                fc_args = Some [''message'' \<mapsto> ''turn the echo knob left'']\<rparr>]),
      audioData = None, interrupted = False\<rparr>"

text \<open>A call of the instruction tool with no \<^verbatim>\<open>args\<close> at all.\<close>

definition argless_call_message :: server_message where
  "argless_call_message =
     \<lparr>toolCall = Some (Some [\<lparr>fc_id = Some ''call-1'', fc_name = Some ''displayInstruction'',
                                fc_args = None\<rparr>]),
      audioData = None, interrupted = False\<rparr>"

text \<open>A message that carries only the \<^verbatim>\<open>interrupted\<close> flag.\<close>

definition interruption_message :: server_message where
  "interruption_message = \<lparr>toolCall = None, audioData = None, interrupted = True\<rparr>"

text \<open>
  An interruption, a frame tick and a channel error, after which the wall clock reaches
  \<open>t\<close>.
\<close>

definition busy_until :: "real \<Rightarrow> session_event list" where
  "busy_until t = [Message interruption_message 1, FrameTick, ChannelError, ClockReaches t]"

text \<open>A message that calls the instruction tool with the instruction \<^verbatim>\<open>fix_buzz\<close>.\<close>

definition fix_buzz_message :: server_message where
  "fix_buzz_message =
     \<lparr>toolCall = Some (Some [\<lparr>fc_id = Some ''call-1'', fc_name = Some ''displayInstruction'',
                                fc_args = Some [''action'' \<mapsto> ''fix_buzz'',
                                                ''message'' \<mapsto> ''check the cables'']\<rparr>]),
      audioData = None, interrupted = False\<rparr>"

text \<open>
  The instruction \<^verbatim>\<open>fix_buzz\<close> is set, the channel closes two seconds later, and the
  wall clock then reaches \<open>t\<close>. No other instruction arrives.
\<close>

definition closed_until :: "real \<Rightarrow> session_event list" where
  "closed_until t =
     [Message fix_buzz_message 0, ClockReaches 2000, ChannelClose, ClockReaches t]"

section \<open>The handlers in closed form\<close>

lemma stopSession_eq:
  "stopSession st =
     st\<lparr>liveTracks := liveTracks st - tracks_of st,
        timers := filter (\<lambda>e. timer_id e \<notin> truthy_set (frameIntervalRef st) \<and>
                               timer_id e \<notin> truthy_set (instructionTimeoutRef st)) (timers st),
        closedContexts := closedContexts st \<union> opt_set (audioContextRef st)
                            \<union> opt_set (inputContextRef st),
        sessionRef := None,
        stoppedNodes := stoppedNodes st \<union> node_id ` sourcesRef st,
        sourcesRef := {},
        status := DISCONNECTED\<rparr>"
  by (cases "streamRef st"; cases "frameIntervalRef st"; cases "instructionTimeoutRef st";
      cases "audioContextRef st"; cases "inputContextRef st")
     (simp_all add: stopSession_def clearTimer_def opt_set_def truthy_set_def tracks_of_def)

lemma stopSession_twice: "stopSession (stopSession st) = stopSession st"
proof -
  let ?s = "stopSession st"
  have refs: "streamRef ?s = streamRef st" "frameIntervalRef ?s = frameIntervalRef st"
    "instructionTimeoutRef ?s = instructionTimeoutRef st"
    "audioContextRef ?s = audioContextRef st" "inputContextRef ?s = inputContextRef st"
    "sourcesRef ?s = {}"
    by (simp_all add: stopSession_eq [of st])
  show ?thesis
    apply (subst stopSession_eq [of "stopSession st"])
    apply (simp add: refs tracks_of_def)
    apply (simp add: stopSession_eq [of st] tracks_of_def Un_assoc Diff_eq Int_assoc)
    apply (auto simp add: opt_set_def split: option.splits)
    done
qed

lemma handleInstruction_eq:
  "handleInstruction i st =
     st\<lparr>currentInstruction := Some i,
        timers := filter (\<lambda>e. timer_id e \<notin> truthy_set (instructionTimeoutRef st)) (timers st)
                  @ [\<lparr>timer_id = Suc (lastTimerId st), kind = Timeout (now st + 8000)\<rparr>],
        lastTimerId := Suc (lastTimerId st),
        instructionTimeoutRef := Some (Suc (lastTimerId st))\<rparr>"
  by (cases "instructionTimeoutRef st")
     (simp_all add: handleInstruction_def clearTimer_def setTimeout_def truthy_set_def)

lemma interrupted_branch_eq:
  "interrupted msg \<Longrightarrow>
   interrupted_branch msg st =
     st\<lparr>stoppedNodes := stoppedNodes st \<union> node_id ` sourcesRef st,
        sourcesRef := {},
        nextStartTimeRef := 0,
        isAiSpeaking := False\<rparr>"
  by (simp add: interrupted_branch_def)

lemma toolCall_branch_cases:
  "toolCall_branch msg st = Inl TypeError \<and>
     (\<exists>call rest. toolCall msg = Some (Some (call # rest)) \<and>
        fc_name call = Some ''displayInstruction'' \<and> fc_args call = None)
   \<or> toolCall_branch msg st = Inr st
   \<or> (\<exists>call rest args. toolCall msg = Some (Some (call # rest)) \<and>
        fc_name call = Some ''displayInstruction'' \<and> fc_args call = Some args \<and>
        toolCall_branch msg st =
          Inr ((handleInstruction \<lparr>action = args ''action'', message = args ''message''\<rparr> st)
                 \<lparr>outbox := outbox st @
                    [ToolResponse (fc_id call) ''displayInstruction''
                       ''Instruction displayed to user'']\<rparr>))"
  by (auto simp add: toolCall_branch_def handleInstruction_eq split: option.splits list.splits)

lemma toolCall_branch_playback:
  assumes "toolCall_branch msg st = Inr st1"
  shows "sourcesRef st1 = sourcesRef st" "stoppedNodes st1 = stoppedNodes st"
    "nextStartTimeRef st1 = nextStartTimeRef st" "audioContextRef st1 = audioContextRef st"
    "lastNodeId st1 = lastNodeId st" "isAiSpeaking st1 = isAiSpeaking st"
  using assms toolCall_branch_cases [of msg st]
  by (auto simp add: handleInstruction_eq)

lemma begin_audio:
  "data \<noteq> [] \<Longrightarrow> audioContextRef st \<noteq> None \<Longrightarrow>
   onmessage_begin (audio_message data) clock st =
     Awaiting (st\<lparr>isAiSpeaking := True, nextStartTimeRef := max (nextStartTimeRef st) clock\<rparr>)"
  by (simp add: onmessage_begin_def audio_message_def toolCall_branch_def)



lemma resume_interrupted:
  "interrupted msg \<Longrightarrow>
   onmessage_resume msg dur st =
     st\<lparr>lastNodeId := Suc (lastNodeId st),
        startedNodes := startedNodes st @
          [\<lparr>node_id = Suc (lastNodeId st), startAt = nextStartTimeRef st, duration = dur\<rparr>],
        stoppedNodes := stoppedNodes st \<union> node_id ` sourcesRef st \<union> {Suc (lastNodeId st)},
        sourcesRef := {},
        nextStartTimeRef := 0,
        isAiSpeaking := False\<rparr>"
  by (simp add: onmessage_resume_def interrupted_branch_eq Let_def Un_commute insert_commute)

lemma resume_started:
  "startedNodes (onmessage_resume msg dur st) =
     startedNodes st @
       [\<lparr>node_id = Suc (lastNodeId st), startAt = nextStartTimeRef st, duration = dur\<rparr>]"
  by (simp add: onmessage_resume_def interrupted_branch_def Let_def)

lemma started_since_resume:
  "started_since st (onmessage_resume msg dur st) = [(nextStartTimeRef st, dur)]"
  by (simp add: started_since_def resume_started)

lemma schedule_log_Decoded [simp]:
  "schedule_log (Decoded msg dur # es) st =
     (nextStartTimeRef st, dur) # schedule_log es (onmessage_resume msg dur st)"
  by (simp add: started_since_resume)

declare schedule_log.simps(3) [simp del]

lemma onmessage_eq:
  "toolCall_branch msg st = Inr st1 \<Longrightarrow>
   onmessage msg clock dur st =
     Finished
       (if truthy_str (audioData msg) then
          (if audioContextRef st1 \<noteq> None
           then onmessage_resume msg dur
                  (st1\<lparr>isAiSpeaking := True,
                       nextStartTimeRef := max (nextStartTimeRef st1) clock\<rparr>)
           else interrupted_branch msg (st1\<lparr>isAiSpeaking := True\<rparr>))
        else interrupted_branch msg st1)"
  by (simp add: onmessage_def onmessage_begin_def Let_def)

lemmas sample_defs = connected_session_def listening_session_def fresh_session_def
  initial_session_def tracks_of_def truthy_set_def opt_set_def armed_ids_def

section \<open>Stopping the session\<close>

text \<open>
  Claim C3. \<^verbatim>\<open>stop()\<close> is idempotent: from every session state, calling it twice in
  succession leaves the same state as calling it once. Each call stops all device
  tracks, clears the frame-sampling interval and the instruction expiry timer, closes
  both audio contexts, discards the channel handle, stops and releases every active
  playback segment, and sets the state to DISCONNECTED.
\<close>

theorem stopSession_idempotent:
  "stopSession (stopSession st) = stopSession st \<and>
   tracks_of st \<inter> liveTracks (stopSession st) = {} \<and>
   truthy_set (frameIntervalRef st) \<inter> armed_ids (stopSession st) = {} \<and>
   truthy_set (instructionTimeoutRef st) \<inter> armed_ids (stopSession st) = {} \<and>
   opt_set (audioContextRef st) \<union> opt_set (inputContextRef st)
     \<subseteq> closedContexts (stopSession st) \<and>
   sessionRef (stopSession st) = None \<and>
   node_id ` sourcesRef st \<subseteq> stoppedNodes (stopSession st) \<and>
   sourcesRef (stopSession st) = {} \<and>
   status (stopSession st) = DISCONNECTED"
proof -
  have "tracks_of st \<inter> liveTracks (stopSession st) = {}"
    by (auto simp add: stopSession_eq [of st])
  moreover have "truthy_set (frameIntervalRef st) \<inter> armed_ids (stopSession st) = {}"
    by (auto simp add: stopSession_eq [of st] armed_ids_def)
  moreover have "truthy_set (instructionTimeoutRef st) \<inter> armed_ids (stopSession st) = {}"
    by (auto simp add: stopSession_eq [of st] armed_ids_def)
  moreover have "opt_set (audioContextRef st) \<union> opt_set (inputContextRef st)
     \<subseteq> closedContexts (stopSession st)"
    by (auto simp add: stopSession_eq [of st])
  moreover have "sessionRef (stopSession st) = None"
    "node_id ` sourcesRef st \<subseteq> stoppedNodes (stopSession st)"
    "sourcesRef (stopSession st) = {}" "status (stopSession st) = DISCONNECTED"
    by (simp_all add: stopSession_eq [of st])
  ultimately show ?thesis using stopSession_twice by blast
qed

theorem stopSession_idempotent_witness:
  "stopSession (stopSession connected_session) = stopSession connected_session \<and>
   liveTracks connected_session = {1, 2} \<and> liveTracks (stopSession connected_session) = {} \<and>
   armed_ids connected_session = {1, 2} \<and> armed_ids (stopSession connected_session) = {} \<and>
   closedContexts (stopSession connected_session) = {1, 2} \<and>
   sessionRef (stopSession connected_session) = None \<and>
   stoppedNodes (stopSession connected_session) = {1, 2} \<and>
   sourcesRef (stopSession connected_session) = {} \<and>
   status (stopSession connected_session) = DISCONNECTED"
proof -
  have twice: "stopSession (stopSession connected_session) = stopSession connected_session"
    using stopSession_idempotent [of connected_session] by blast
  have before: "liveTracks connected_session = {1, 2}" "armed_ids connected_session = {1, 2}"
    by (auto simp add: sample_defs)
  have after: "liveTracks (stopSession connected_session) = {}"
    "armed_ids (stopSession connected_session) = {}"
    "closedContexts (stopSession connected_session) = {1, 2}"
    "sessionRef (stopSession connected_session) = None"
    "stoppedNodes (stopSession connected_session) = {1, 2}"
    "sourcesRef (stopSession connected_session) = {}"
    "status (stopSession connected_session) = DISCONNECTED"
    by (auto simp add: stopSession_eq sample_defs)
  from twice before after show ?thesis by simp
qed

section \<open>Interruption\<close>

text \<open>
  Claim C2. Whatever the state before, once a message carrying the interruption signal
  has been handled, every playback segment that was active has been stopped, the
  active set is empty, the next playback offset is 0 and the agent-speaking flag is
  false; so the next payload starts at once, at the output clock of its arrival. This
  holds for a handler run in one piece (when its tool-call part does not throw) and for
  a handler resumed after its decoding from any state.
\<close>

theorem interruption_flushes_playback:
  assumes int: "interrupted msg" and tool: "toolCall_branch msg st = Inr st1"
  shows "(\<exists>st'. onmessage msg clock dur st = Finished st' \<and>
            sourcesRef st' = {} \<and> nextStartTimeRef st' = 0 \<and> \<not> isAiSpeaking st' \<and>
            node_id ` sourcesRef st \<subseteq> stoppedNodes st' \<and>
            (audioContextRef st \<noteq> None \<and> data \<noteq> [] \<and> 0 \<le> clock' \<longrightarrow>
               schedule_log (one_by_one [(data, clock', dur')]) st' = [(clock', dur')])) \<and>
         sourcesRef (onmessage_resume msg dur st) = {} \<and>
         nextStartTimeRef (onmessage_resume msg dur st) = 0 \<and>
         \<not> isAiSpeaking (onmessage_resume msg dur st) \<and>
         node_id ` sourcesRef st \<subseteq> stoppedNodes (onmessage_resume msg dur st)"
proof -
  define st' where "st' =
       (if truthy_str (audioData msg) then
          (if audioContextRef st1 \<noteq> None
           then onmessage_resume msg dur
                  (st1\<lparr>isAiSpeaking := True,
                       nextStartTimeRef := max (nextStartTimeRef st1) clock\<rparr>)
           else interrupted_branch msg (st1\<lparr>isAiSpeaking := True\<rparr>))
        else interrupted_branch msg st1)"
  have fin: "onmessage msg clock dur st = Finished st'"
    unfolding st'_def by (rule onmessage_eq [OF tool])
  have flushed: "sourcesRef st' = {}" "nextStartTimeRef st' = 0" "\<not> isAiSpeaking st'"
      "node_id ` sourcesRef st \<subseteq> stoppedNodes st'"
    and ctx: "audioContextRef st' = audioContextRef st"
    using int toolCall_branch_playback [OF tool]
    by (auto simp add: st'_def resume_interrupted interrupted_branch_eq)
  have "schedule_log (one_by_one [(data, clock', dur')]) st' = [(clock', dur')]"
    if "audioContextRef st \<noteq> None" "data \<noteq> []" "0 \<le> clock'"
    using that ctx flushed(2) by (simp add: begin_audio)
  with fin flushed have first: "\<exists>st'. onmessage msg clock dur st = Finished st' \<and>
            sourcesRef st' = {} \<and> nextStartTimeRef st' = 0 \<and> \<not> isAiSpeaking st' \<and>
            node_id ` sourcesRef st \<subseteq> stoppedNodes st' \<and>
            (audioContextRef st \<noteq> None \<and> data \<noteq> [] \<and> 0 \<le> clock' \<longrightarrow>
               schedule_log (one_by_one [(data, clock', dur')]) st' = [(clock', dur')])"
    by blast
  have "sourcesRef (onmessage_resume msg dur st) = {}"
    "nextStartTimeRef (onmessage_resume msg dur st) = 0"
    "\<not> isAiSpeaking (onmessage_resume msg dur st)"
    "node_id ` sourcesRef st \<subseteq> stoppedNodes (onmessage_resume msg dur st)"
    using int by (auto simp add: resume_interrupted)
  with first show ?thesis by blast
qed

theorem interruption_flushes_playback_witness:
  "interrupted interruption_message \<and>
   toolCall_branch interruption_message connected_session = Inr connected_session \<and>
   sourcesRef connected_session \<noteq> {} \<and> nextStartTimeRef connected_session = 3 / 2 \<and>
   isAiSpeaking connected_session \<and>
   (\<exists>st'. onmessage interruption_message 2 0 connected_session = Finished st' \<and>
      sourcesRef st' = {} \<and> nextStartTimeRef st' = 0 \<and> \<not> isAiSpeaking st' \<and>
      stoppedNodes st' = {1, 2} \<and>
      schedule_log (one_by_one [(''pcm'', 2, 1)]) st' = [(2, 1)])"
proof -
  have int: "interrupted interruption_message" by (simp add: interruption_message_def)
  have tool: "toolCall_branch interruption_message connected_session = Inr connected_session"
    by (simp add: toolCall_branch_def interruption_message_def)
  have pre: "sourcesRef connected_session \<noteq> {}" "nextStartTimeRef connected_session = 3 / 2"
    "isAiSpeaking connected_session" "audioContextRef connected_session \<noteq> None"
    "node_id ` sourcesRef connected_session = {1, 2}" "stoppedNodes connected_session = {}"
    by (auto simp add: sample_defs)
  from interruption_flushes_playback [OF int tool, of 2 0 "''pcm''" 2 1] pre(4)
  obtain st' where fin: "onmessage interruption_message 2 0 connected_session = Finished st'"
    and post: "sourcesRef st' = {}" "nextStartTimeRef st' = 0" "\<not> isAiSpeaking st'"
      "schedule_log (one_by_one [(''pcm'', 2, 1)]) st' = [(2, 1)]"
    by auto
  have "onmessage interruption_message 2 0 connected_session =
          Finished (interrupted_branch interruption_message connected_session)"
    using onmessage_eq [OF tool, of 2 0] by (simp add: interruption_message_def)
  with fin have "st' = interrupted_branch interruption_message connected_session" by simp
  then have "stoppedNodes st' = {1, 2}"
    using pre(5,6) by (simp add: interrupted_branch_eq [OF int])
  with int tool pre fin post show ?thesis by simp
qed

text \<open>
  Claim C10. Handling an interruption signal leaves the current instruction and its
  pending expiry timer as they were: for a message that carries the signal and no tool
  call, the instruction, the timer reference and the armed timers are unchanged, and
  when the message carries no audio the only fields that change are the active set,
  the next playback offset, the speaking flag and the stopped state of the segments.
\<close>

theorem interruption_keeps_instruction:
  assumes int: "interrupted msg" and notool: "toolCall msg = None"
  shows "(\<exists>st'. onmessage msg clock dur st = Finished st' \<and>
            currentInstruction st' = currentInstruction st \<and>
            instructionTimeoutRef st' = instructionTimeoutRef st \<and>
            timers st' = timers st \<and> now st' = now st \<and>
            (\<not> truthy_str (audioData msg) \<longrightarrow>
               st' = st\<lparr>stoppedNodes := stoppedNodes st \<union> node_id ` sourcesRef st,
                        sourcesRef := {}, nextStartTimeRef := 0, isAiSpeaking := False\<rparr>)) \<and>
         currentInstruction (onmessage_resume msg dur st) = currentInstruction st \<and>
         instructionTimeoutRef (onmessage_resume msg dur st) = instructionTimeoutRef st \<and>
         timers (onmessage_resume msg dur st) = timers st"
proof -
  have tool: "toolCall_branch msg st = Inr st" using notool by (simp add: toolCall_branch_def)
  show ?thesis
    using int
    by (auto simp add: onmessage_eq [OF tool] resume_interrupted interrupted_branch_eq)
qed

theorem interruption_keeps_instruction_witness:
  "interrupted interruption_message \<and> toolCall interruption_message = None \<and>
   currentInstruction connected_session =
     Some \<lparr>action = Some ''fix_buzz'', message = Some ''check the cables''\<rparr> \<and>
   (\<exists>st'. onmessage interruption_message 2 0 connected_session = Finished st' \<and>
      currentInstruction st' =
        Some \<lparr>action = Some ''fix_buzz'', message = Some ''check the cables''\<rparr> \<and>
      instructionTimeoutRef st' = Some 2 \<and>
      timers st' = timers connected_session \<and>
      sourcesRef st' = {} \<and> nextStartTimeRef st' = 0 \<and> \<not> isAiSpeaking st')"
proof -
  have int: "interrupted interruption_message" and notool: "toolCall interruption_message = None"
    and noaudio: "\<not> truthy_str (audioData interruption_message)"
    by (simp_all add: interruption_message_def)
  have pre: "currentInstruction connected_session =
     Some \<lparr>action = Some ''fix_buzz'', message = Some ''check the cables''\<rparr>"
    "instructionTimeoutRef connected_session = Some 2"
    by (simp_all add: sample_defs)
  from interruption_keeps_instruction [OF int notool, of 2 0 connected_session] noaudio
  obtain st' where "onmessage interruption_message 2 0 connected_session = Finished st'"
    "currentInstruction st' = currentInstruction connected_session"
    "instructionTimeoutRef st' = instructionTimeoutRef connected_session"
    "timers st' = timers connected_session"
    "st' = connected_session\<lparr>stoppedNodes := stoppedNodes connected_session
                \<union> node_id ` sourcesRef connected_session,
              sourcesRef := {}, nextStartTimeRef := 0, isAiSpeaking := False\<rparr>"
    by auto
  then show ?thesis using int notool pre by auto
qed

section \<open>Playback scheduling\<close>


















section \<open>Instruction expiry\<close>

lemma fire_timeout_fields:
  "currentInstruction (fire_timeout k st) = None"
  "timers (fire_timeout k st) = filter (\<lambda>e. timer_id e \<noteq> k) (timers st)"
  "now (fire_timeout k st) = now st"
  by (simp_all add: fire_timeout_def instruction_expired_def clearTimer_def)

lemma run_due_None:
  "currentInstruction st = None \<Longrightarrow> currentInstruction (run_due es st) = None"
  by (induction es arbitrary: st) (simp_all add: fire_timeout_fields)

lemma run_due_fires:
  assumes "es \<noteq> []" "set es \<subseteq> set (timers st)"
  shows "currentInstruction (run_due es st) = None"
proof -
  from assms obtain e es' where es: "es = e # es'" by (cases es) auto
  with assms(2) have "armed (timer_id e) st" by (auto simp add: armed_def)
  then show ?thesis by (simp add: es run_due_None fire_timeout_fields)
qed

lemma run_due_now: "now (run_due es st) = now st"
  by (induction es arbitrary: st) (simp_all add: fire_timeout_fields)

lemma tracked_timeout_id:
  assumes "expiry_tracked st" "e \<in> set (timers st)" "kind e = Timeout d"
  shows "timer_id e \<in> truthy_set (instructionTimeoutRef st)"
  using assms by (auto simp add: expiry_tracked_def list_all_iff truthy_set_def)

lemma tracked_timeouts_cleared:
  assumes "expiry_tracked st"
  shows "filter is_timeout
           (filter (\<lambda>e. timer_id e \<notin> truthy_set (instructionTimeoutRef st)) (timers st)) = []"
  using tracked_timeout_id [OF assms]
  by (auto simp add: filter_empty_conv split: timer_kind.splits)

lemma tracked_none_due:
  assumes "expiry_tracked st"
  shows "filter (is_due t)
           (filter (\<lambda>e. timer_id e \<notin> truthy_set (instructionTimeoutRef st)) (timers st)) = []"
  using tracked_timeout_id [OF assms]
  by (auto simp add: filter_empty_conv split: timer_kind.splits)

lemma handleInstruction_tracked:
  assumes "expiry_tracked st"
  shows "expiry_tracked (handleInstruction i st)"
proof -
  have b: "\<And>e. e \<in> set (timers st) \<Longrightarrow> 0 < timer_id e \<and> timer_id e \<le> lastTimerId st"
    using assms by (auto simp add: expiry_tracked_def list_all_iff)
  show ?thesis
    using tracked_timeout_id [OF assms] b
    by (auto simp add: handleInstruction_eq expiry_tracked_def list_all_iff le_Suc_eq
             split: timer_kind.splits)
qed

lemma bystander_message:
  "\<not> replaces msg \<Longrightarrow> toolCall_branch msg st = Inr st"
  using toolCall_branch_cases [of msg st] by (auto simp add: replaces_def)

lemma bystander_keeps:
  assumes "bystander ev" "\<And>t. ev \<noteq> ClockReaches t"
  shows "now (step ev st) = now st" "currentInstruction (step ev st) = currentInstruction st"
    "filter is_timeout (timers (step ev st)) = filter is_timeout (timers st)"
proof -
  show "now (step ev st) = now st"
    using assms
    by (cases ev)
       (auto simp add: onmessage_begin_def bystander_message onmessage_resume_def
          interrupted_branch_def source_ended_def frame_tick_def toBlob_done_def
          onaudioprocess_def onerror_def onopen_def startVideoStreaming_def setInterval_def
          connect_begin_def connect_acquired_def connect_catch_def video_frame_def
          render_error_def Let_def split: option.splits prod.splits list.splits)
  show "currentInstruction (step ev st) = currentInstruction st"
    using assms
    by (cases ev)
       (auto simp add: onmessage_begin_def bystander_message onmessage_resume_def
          interrupted_branch_def source_ended_def frame_tick_def toBlob_done_def
          onaudioprocess_def onerror_def onopen_def startVideoStreaming_def setInterval_def
          connect_begin_def connect_acquired_def connect_catch_def video_frame_def
          render_error_def Let_def split: option.splits prod.splits list.splits)
  show "filter is_timeout (timers (step ev st)) = filter is_timeout (timers st)"
    using assms
    by (cases ev)
       (auto simp add: onmessage_begin_def bystander_message onmessage_resume_def
          interrupted_branch_def source_ended_def frame_tick_def toBlob_done_def
          onaudioprocess_def onerror_def onopen_def startVideoStreaming_def setInterval_def
          connect_begin_def connect_acquired_def connect_catch_def video_frame_def
          render_error_def Let_def split: option.splits prod.splits list.splits)
qed

lemma due_among_timeouts_list:
  "filter (is_due t) xs = filter (is_due t) (filter is_timeout xs)"
  by (induction xs) (auto split: timer_kind.splits)

lemma due_among_timeouts:
  "filter (is_due t) (timers st) = filter (is_due t) (filter is_timeout (timers st))"
  by (rule due_among_timeouts_list)

lemma pending_step:
  assumes "bystander ev" "pending i k D st"
  shows "pending i k D (step ev st)"
proof (cases "\<exists>t. ev = ClockReaches t")
  case False
  then have "\<And>t. ev \<noteq> ClockReaches t" by blast
  from bystander_keeps [OF assms(1) this, of st] assms(2) show ?thesis
    by (simp add: pending_def)
next
  case True
  then obtain t where ev: "ev = ClockReaches t" by blast
  let ?new = "\<lparr>timer_id = k, kind = Timeout D\<rparr>"
  from assms(2) consider
      (before) "now st < D" "currentInstruction st = Some i"
        "filter is_timeout (timers st) = [?new]"
    | (after) "D \<le> now st" "currentInstruction st = None" "filter is_timeout (timers st) = []"
    by (auto simp add: pending_def)
  then show ?thesis
  proof cases
    case before
    show ?thesis
    proof (cases "D \<le> t")
      case True
      have due: "filter (is_due t) (timers st) = [?new]"
        using True by (simp add: due_among_timeouts [of t st] before(3))
      have "?new \<in> set (filter is_timeout (timers st))" by (simp add: before(3))
      then have "?new \<in> set (timers st)" by simp
      then have "timer_id ?new \<in> timer_id ` set (timers st)" by (rule imageI)
      then have arm: "armed k st" by (simp add: armed_def)
      have "filter is_timeout (filter (\<lambda>e. timer_id e \<noteq> k) (timers st)) =
              filter (\<lambda>e. timer_id e \<noteq> k) (filter is_timeout (timers st))"
        by (simp add: conj_commute)
      then have gone: "filter is_timeout (filter (\<lambda>e. timer_id e \<noteq> k) (timers st)) = []"
        by (simp add: before(3))
      show ?thesis
        using True gone
        by (simp add: ev advance_to_def due arm fire_timeout_def instruction_expired_def
              clearTimer_def pending_def)
    next
      case False
      have due: "filter (is_due t) (timers st) = []"
        using False by (simp add: due_among_timeouts [of t st] before(3))
      show ?thesis using False before by (simp add: ev advance_to_def due pending_def)
    qed
  next
    case after
    have due: "filter (is_due t) (timers st) = []"
      by (simp add: due_among_timeouts [of t st] after(3))
    show ?thesis using after by (simp add: ev advance_to_def due pending_def)
  qed
qed

lemma pending_run:
  "list_all bystander evs \<Longrightarrow> pending i k D st \<Longrightarrow> pending i k D (run evs st)"
  by (induction evs arbitrary: st) (simp_all add: pending_step)

lemma run_now:
  "list_all bystander evs \<Longrightarrow> now (run evs st) = foldl (\<lambda>n ev. case ev of ClockReaches t \<Rightarrow> max n t | _ \<Rightarrow> n) (now st) evs"
proof (induction evs arbitrary: st)
  case Nil
  then show ?case by simp
next
  case (Cons ev evs)
  show ?case
  proof (cases "\<exists>t. ev = ClockReaches t")
    case True
    then obtain t where ev: "ev = ClockReaches t" by blast
    have "now (advance_to t st) = max (now st) t"
      by (simp add: advance_to_def run_due_now Let_def)
    with Cons show ?thesis by (simp add: ev)
  next
    case False
    then have "\<And>t. ev \<noteq> ClockReaches t" by blast
    from bystander_keeps(1) [OF _ this, of st] Cons False show ?thesis
      by (cases ev) auto
  qed
qed

lemma expiry_tracked_now: "expiry_tracked (st\<lparr>now := t\<rparr>) = expiry_tracked st"
  by (auto simp add: expiry_tracked_def list_all_iff split: timer_kind.splits option.splits)

lemma expiry_tracked_shrink:
  assumes "expiry_tracked st" "set (timers st') \<subseteq> set (timers st)"
    "instructionTimeoutRef st' = instructionTimeoutRef st" "lastTimerId st' = lastTimerId st"
  shows "expiry_tracked st'"
  using assms
  by (auto simp add: expiry_tracked_def list_all_iff split: timer_kind.splits option.splits)

lemma run_due_shrink:
  "set (timers (run_due es st)) \<subseteq> set (timers st) \<and>
   instructionTimeoutRef (run_due es st) = instructionTimeoutRef st \<and>
   lastTimerId (run_due es st) = lastTimerId st"
proof (induction es arbitrary: st)
  case Nil
  then show ?case by simp
next
  case (Cons e es)
  let ?st1 = "if armed (timer_id e) st then fire_timeout (timer_id e) st else st"
  have "set (timers ?st1) \<subseteq> set (timers st)"
    "instructionTimeoutRef ?st1 = instructionTimeoutRef st" "lastTimerId ?st1 = lastTimerId st"
    by (auto simp add: fire_timeout_def instruction_expired_def clearTimer_def)
  with Cons.IH [of ?st1] show ?case by auto
qed

lemma expiry_tracked_step:
  assumes "expiry_tracked st"
  shows "expiry_tracked (step ev st)"
proof (cases ev)
  case Connect
  show ?thesis
    by (rule expiry_tracked_shrink [OF assms]) (simp_all add: Connect connect_begin_def)
next
  case (StreamAcquired tracks inCtx outCtx)
  show ?thesis
    by (rule expiry_tracked_shrink [OF assms])
       (simp_all add: StreamAcquired connect_acquired_def Let_def)
next
  case (SetupFailed m)
  show ?thesis
    by (rule expiry_tracked_shrink [OF assms])
       (simp_all add: SetupFailed connect_catch_def render_error_def Let_def)
next
  case (VideoFrame w h)
  show ?thesis
    by (rule expiry_tracked_shrink [OF assms])
       (simp_all add: VideoFrame video_frame_def split: option.splits)
next
  case (Message msg clock)
  from toolCall_branch_cases [of msg st] consider
      (threw) "toolCall_branch msg st = Inl TypeError"
    | (none) "toolCall_branch msg st = Inr st"
    | (shown) i box where
        "toolCall_branch msg st = Inr ((handleInstruction i st)\<lparr>outbox := box\<rparr>)"
    by blast
  then show ?thesis
  proof cases
    case threw
    then show ?thesis using assms by (simp add: Message onmessage_begin_def)
  next
    case none
    show ?thesis
      by (rule expiry_tracked_shrink [OF assms])
         (simp_all add: Message onmessage_begin_def none interrupted_branch_def Let_def)
  next
    case shown
    have "expiry_tracked ((handleInstruction i st)\<lparr>outbox := box\<rparr>)"
      by (rule expiry_tracked_shrink [OF handleInstruction_tracked [OF assms]]) simp_all
    then show ?thesis
      by (rule expiry_tracked_shrink)
         (simp_all add: Message onmessage_begin_def shown interrupted_branch_def Let_def)
  qed
next
  case (DecodeDone msg dur)
  show ?thesis
    by (rule expiry_tracked_shrink [OF assms])
       (simp_all add: DecodeDone onmessage_resume_def interrupted_branch_def Let_def)
next
  case (SourceEnded source)
  show ?thesis
    by (rule expiry_tracked_shrink [OF assms]) (simp_all add: SourceEnded source_ended_def Let_def)
next
  case FrameTick
  show ?thesis
    by (rule expiry_tracked_shrink [OF assms])
       (simp_all add: FrameTick frame_tick_def split: option.splits prod.splits)
next
  case (BlobDone blob)
  show ?thesis
    by (rule expiry_tracked_shrink [OF assms])
       (simp_all add: BlobDone toBlob_done_def Let_def split: option.splits list.splits)
next
  case (AudioBlock inputData)
  show ?thesis
    by (rule expiry_tracked_shrink [OF assms]) (simp_all add: AudioBlock onaudioprocess_def Let_def)
next
  case ChannelOpen
  show ?thesis
    using assms
    by (auto simp add: ChannelOpen onopen_def startVideoStreaming_def setInterval_def
          expiry_tracked_def list_all_iff le_Suc_eq split: timer_kind.splits option.splits)
next
  case ChannelError
  show ?thesis
    by (rule expiry_tracked_shrink [OF assms])
       (simp_all add: ChannelError onerror_def render_error_def)
next
  case ChannelClose
  show ?thesis
    by (rule expiry_tracked_shrink [OF assms])
       (auto simp add: ChannelClose onclose_def stopSession_eq [of st])
next
  case Unmount
  show ?thesis
    by (rule expiry_tracked_shrink [OF assms])
       (auto simp add: Unmount unmount_def stopSession_eq [of st])
next
  case (ClockReaches t)
  have "expiry_tracked (run_due (filter (is_due t) (timers st)) st)"
    using run_due_shrink [of "filter (is_due t) (timers st)" st]
    by (intro expiry_tracked_shrink [OF assms]) simp_all
  then show ?thesis by (simp add: ClockReaches advance_to_def Let_def expiry_tracked_now)
qed

lemma expiry_tracked_run:
  "expiry_tracked st \<Longrightarrow> expiry_tracked (run evs st)"
  by (induction evs arbitrary: st) (simp_all add: expiry_tracked_step)

lemma expiry_tracked_reachable: "expiry_tracked (run evs (initial_session addD divD))"
  by (rule expiry_tracked_run) (simp add: expiry_tracked_def initial_session_def)

lemma run_append: "run (xs @ ys) st = run ys (run xs st)"
  by (induction xs arbitrary: st) simp_all

lemma bystander_iff: "bystander ev = (\<not> sets_instruction ev \<and> \<not> stops ev)"
  by (cases ev) simp_all

lemma stopSession_no_timeouts:
  assumes "expiry_tracked st"
  shows "filter is_timeout (timers (stopSession st)) = []"
  using tracked_timeout_id [OF assms]
  by (auto simp add: stopSession_eq [of st] filter_empty_conv split: timer_kind.splits)

lemma advance_to_idle:
  "filter (is_due t) (timers st) = [] \<Longrightarrow> advance_to t st = st\<lparr>now := max (now st) t\<rparr>"
  by (simp add: advance_to_def)

lemma stale_step:
  assumes "filter is_timeout (timers st) = []" "\<not> sets_instruction ev"
  shows "filter is_timeout (timers (step ev st)) = [] \<and>
         currentInstruction (step ev st) = currentInstruction st"
proof (cases "stops ev")
  case True
  then have ev: "step ev st = stopSession st" by (cases ev) (simp_all add: onclose_def unmount_def)
  have "filter is_timeout (timers (stopSession st)) = []"
    using assms(1) by (auto simp add: stopSession_eq [of st] filter_empty_conv)
  then show ?thesis by (simp add: ev stopSession_eq [of st])
next
  case False
  with assms(2) have by1: "bystander ev" by (simp add: bystander_iff)
  show ?thesis
  proof (cases "\<exists>t. ev = ClockReaches t")
    case True
    then obtain t where ev: "ev = ClockReaches t" by blast
    have "filter (is_due t) (timers st) = []"
      by (simp add: due_among_timeouts [of t st] assms(1))
    then show ?thesis using assms(1) by (simp add: ev advance_to_idle)
  next
    case False
    then have "\<And>t. ev \<noteq> ClockReaches t" by blast
    from bystander_keeps [OF by1 this, of st] assms(1) show ?thesis by simp
  qed
qed

lemma stale_run:
  "filter is_timeout (timers st) = [] \<Longrightarrow> list_all (\<lambda>e. \<not> sets_instruction e) evs \<Longrightarrow>
   currentInstruction (run evs st) = currentInstruction st"
proof (induction evs arbitrary: st)
  case Nil
  then show ?case by simp
next
  case (Cons ev evs)
  from Cons.prems have ev: "\<not> sets_instruction ev"
    and rest: "list_all (\<lambda>e. \<not> sets_instruction e) evs"
    by simp_all
  from stale_step [OF Cons.prems(1) ev]
  have none: "filter is_timeout (timers (step ev st)) = []"
    and same: "currentInstruction (step ev st) = currentInstruction st"
    by blast+
  from Cons.IH [OF none rest] same show ?case by simp
qed

lemma stops_step: "stops ev \<Longrightarrow> step ev st = stopSession st"
  by (cases ev) (simp_all add: onclose_def unmount_def)


lemma opened_session_eq:
  "opened_session =
     fresh_session
       \<lparr>status := CONNECTED, streamRef := Some [1, 2], audioContextRef := Some 1,
        inputContextRef := Some 2, frameIntervalRef := Some 1,
        timers := [\<lparr>timer_id = 1, kind = Interval (2000 / 3)\<rparr>], lastTimerId := 1,
        liveTracks := {1, 2}\<rparr>"
  by (simp add: opened_session_def connect_begin_def connect_acquired_def onopen_def
        startVideoStreaming_def setInterval_def FPS_def fresh_session_def initial_session_def
        insert_commute)

lemma shown_eq:
  "outcome_state (onmessage_begin fix_buzz_message 0 opened_session) =
     opened_session
       \<lparr>currentInstruction :=
          Some \<lparr>action = Some ''fix_buzz'', message = Some ''check the cables''\<rparr>,
        timers := [\<lparr>timer_id = 1, kind = Interval (2000 / 3)\<rparr>,
                   \<lparr>timer_id = 2, kind = Timeout 8000\<rparr>],
        lastTimerId := 2, instructionTimeoutRef := Some 2,
        outbox := [ToolResponse (Some ''call-1'') ''displayInstruction''
                     ''Instruction displayed to user'']\<rparr>"
  by (simp add: fix_buzz_message_def onmessage_begin_def toolCall_branch_def
        handleInstruction_eq interrupted_branch_def truthy_set_def)
     (simp add: opened_session_eq fresh_session_def initial_session_def)

text \<open>
  Claim C5 has every instruction that is not replaced within 8 seconds cleared. The
  channel closes two seconds after the instruction was set: \<^verbatim>\<open>stopSession\<close> cancels the
  pending expiry (lines 86-88) and leaves the instruction, which is still current when
  the 8 seconds have passed, and a minute later.
\<close>

theorem instruction_outlives_stop:
  "currentInstruction (run [Message fix_buzz_message 0] opened_session) =
     Some \<lparr>action = Some ''fix_buzz'', message = Some ''check the cables''\<rparr> \<and>
   now (run [Message fix_buzz_message 0] opened_session) = 0 \<and>
   now (run (closed_until 8000) opened_session) = 8000 \<and>
   currentInstruction (run (closed_until 8000) opened_session) =
     Some \<lparr>action = Some ''fix_buzz'', message = Some ''check the cables''\<rparr> \<and>
   currentInstruction (run (closed_until 60000) opened_session) =
     Some \<lparr>action = Some ''fix_buzz'', message = Some ''check the cables''\<rparr> \<and>
   currentInstruction (run (closed_until 8000) opened_session) \<noteq> None"
proof -
  let ?fix = "\<lparr>action = Some ''fix_buzz'', message = Some ''check the cables''\<rparr>"
  let ?shown = "outcome_state (onmessage_begin fix_buzz_message 0 opened_session)"
  have n0: "now opened_session = 0"
    by (simp add: opened_session_eq fresh_session_def initial_session_def)
  have s: "currentInstruction ?shown = Some ?fix" "now ?shown = 0"
    by (simp_all add: shown_eq n0)
  have idle: "advance_to 2000 ?shown = ?shown\<lparr>now := 2000\<rparr>"
    by (simp add: advance_to_idle shown_eq n0)
  have closed: "filter is_timeout (timers (stopSession (?shown\<lparr>now := 2000\<rparr>))) = []"
    "currentInstruction (stopSession (?shown\<lparr>now := 2000\<rparr>)) = Some ?fix"
    "now (stopSession (?shown\<lparr>now := 2000\<rparr>)) = 2000"
    by (simp_all add: stopSession_eq shown_eq truthy_set_def)
  have late: "currentInstruction (run (closed_until t) opened_session) = Some ?fix"
    "now (run (closed_until t) opened_session) = max 2000 t" for t
  proof -
    have due: "filter (is_due t) (timers (stopSession (?shown\<lparr>now := 2000\<rparr>))) = []"
      by (simp add: due_among_timeouts [of t] closed(1))
    show "currentInstruction (run (closed_until t) opened_session) = Some ?fix"
      "now (run (closed_until t) opened_session) = max 2000 t"
      by (simp_all add: closed_until_def idle onclose_def advance_to_idle [OF due] closed)
  qed
  from s late [of 8000] late [of 60000] show ?thesis by simp
qed

text \<open>
  Claim C5, amended. At most one instruction is current (the state holds one optional
  value). Setting an instruction replaces the prior one, cancels the prior expiry timer
  and arms a fresh one due 8000 ms later, which is then the only armed timeout. As long
  as no other instruction replaces it and \<^verbatim>\<open>stop()\<close> does not run, the instruction
  stays until then and is cleared when that time is reached, whatever else happens in
  between (audio, interruptions, frame ticks, a channel error). When \<^verbatim>\<open>stop()\<close> runs
  before that time (the channel closes or the component unmounts), it cancels the
  pending expiry and leaves the instruction, which then stays current until another
  one replaces it. The hypothesis says that the only armed timeout is the one the
  component holds; it is true at mount and every event keeps it
  (\<open>expiry_tracked_reachable\<close>).
\<close>

theorem instruction_expiry:
  assumes "expiry_tracked st"
  shows "currentInstruction (handleInstruction i st) = Some i \<and>
         truthy_set (instructionTimeoutRef st) \<inter> armed_ids (handleInstruction i st) = {} \<and>
         instructionTimeoutRef (handleInstruction i st) = Some (Suc (lastTimerId st)) \<and>
         filter is_timeout (timers (handleInstruction i st)) =
           [\<lparr>timer_id = Suc (lastTimerId st), kind = Timeout (now st + 8000)\<rparr>] \<and>
         (t < now st + 8000 \<longrightarrow>
            currentInstruction (advance_to t (handleInstruction i st)) = Some i) \<and>
         (now st + 8000 \<le> t \<longrightarrow>
            currentInstruction (advance_to t (handleInstruction i st)) = None) \<and>
         (list_all bystander evs \<longrightarrow>
            (now (run evs (handleInstruction i st)) < now st + 8000 \<longrightarrow>
               currentInstruction (run evs (handleInstruction i st)) = Some i) \<and>
            (now st + 8000 \<le> now (run evs (handleInstruction i st)) \<longrightarrow>
               currentInstruction (run evs (handleInstruction i st)) = None)) \<and>
         (list_all bystander evs \<and> now (run evs (handleInstruction i st)) < now st + 8000 \<and>
          stops ev \<and> list_all (\<lambda>e. \<not> sets_instruction e) evs' \<longrightarrow>
            filter is_timeout (timers (run (evs @ [ev]) (handleInstruction i st))) = [] \<and>
            currentInstruction (run (evs @ ev # evs') (handleInstruction i st)) = Some i) \<and>
         expiry_tracked (handleInstruction i st)"
proof -
  let ?st' = "handleInstruction i st"
  let ?kept = "filter (\<lambda>e. timer_id e \<notin> truthy_set (instructionTimeoutRef st)) (timers st)"
  let ?new = "\<lparr>timer_id = Suc (lastTimerId st), kind = Timeout (now st + 8000)\<rparr>"
  have tm: "timers ?st' = ?kept @ [?new]" by (simp add: handleInstruction_eq)
  have tr: "expiry_tracked ?st'" by (rule handleInstruction_tracked [OF assms])
  have only: "filter is_timeout (timers ?st') = [?new]"
    using tracked_timeouts_cleared [OF assms] by (simp add: tm)
  have pend: "pending i (Suc (lastTimerId st)) (now st + 8000) ?st'"
    using only by (simp add: pending_def handleInstruction_eq)
  have "currentInstruction ?st' = Some i" by (simp add: handleInstruction_eq)
  moreover have "truthy_set (instructionTimeoutRef st) \<inter> armed_ids ?st' = {}"
  proof -
    have "Suc (lastTimerId st) \<notin> truthy_set (instructionTimeoutRef st)"
      using assms by (auto simp add: expiry_tracked_def truthy_set_def split: option.splits if_splits)
    then show ?thesis by (auto simp add: armed_ids_def tm)
  qed
  moreover have "instructionTimeoutRef ?st' = Some (Suc (lastTimerId st))"
    by (simp add: handleInstruction_eq)
  moreover note only
  moreover have "currentInstruction (advance_to t ?st') = Some i" if "t < now st + 8000"
  proof -
    have "filter (is_due t) (timers ?st') = []"
      using that tracked_none_due [OF assms, of t] by (simp add: tm)
    then show ?thesis by (simp add: advance_to_def handleInstruction_eq)
  qed
  moreover have "currentInstruction (advance_to t ?st') = None" if "now st + 8000 \<le> t"
  proof -
    have "?new \<in> set (filter (is_due t) (timers ?st'))" using that by (simp add: tm)
    then have "filter (is_due t) (timers ?st') \<noteq> []" by (metis empty_iff empty_set)
    moreover have "set (filter (is_due t) (timers ?st')) \<subseteq> set (timers ?st')" by auto
    ultimately have "currentInstruction (run_due (filter (is_due t) (timers ?st')) ?st') = None"
      by (rule run_due_fires)
    then show ?thesis by (simp add: advance_to_def Let_def)
  qed
  moreover have "(now (run evs ?st') < now st + 8000 \<longrightarrow>
               currentInstruction (run evs ?st') = Some i) \<and>
            (now st + 8000 \<le> now (run evs ?st') \<longrightarrow>
               currentInstruction (run evs ?st') = None)" if "list_all bystander evs"
    using pending_run [OF that pend] by (auto simp add: pending_def)
  moreover have "filter is_timeout (timers (run (evs @ [ev]) ?st')) = [] \<and>
            currentInstruction (run (evs @ ev # evs') ?st') = Some i"
    if "list_all bystander evs" "now (run evs ?st') < now st + 8000" "stops ev"
      "list_all (\<lambda>e. \<not> sets_instruction e) evs'"
  proof -
    let ?mid = "run evs ?st'"
    have cur: "currentInstruction ?mid = Some i"
      using pending_run [OF that(1) pend] that(2) by (auto simp add: pending_def)
    have "expiry_tracked ?mid" by (rule expiry_tracked_run [OF tr])
    then have none: "filter is_timeout (timers (stopSession ?mid)) = []"
      by (rule stopSession_no_timeouts)
    have kept: "currentInstruction (stopSession ?mid) = Some i"
      using cur by (simp add: stopSession_eq [of ?mid])
    have "currentInstruction (run evs' (stopSession ?mid)) = Some i"
      using stale_run [OF none that(4)] kept by simp
    then show ?thesis
      using none by (simp add: run_append stops_step [OF that(3)])
  qed
  moreover note tr
  ultimately show ?thesis by blast
qed

theorem instruction_expiry_witness:
  "expiry_tracked opened_session \<and>
   currentInstruction fix_buzz_shown =
     Some \<lparr>action = Some ''fix_buzz'', message = Some ''check the cables''\<rparr> \<and>
   currentInstruction (advance_to 7999 fix_buzz_shown) =
     Some \<lparr>action = Some ''fix_buzz'', message = Some ''check the cables''\<rparr> \<and>
   currentInstruction (advance_to 8000 fix_buzz_shown) = None \<and>
   list_all bystander (busy_until 7999) \<and>
   currentInstruction (run (busy_until 7999) fix_buzz_shown) =
     Some \<lparr>action = Some ''fix_buzz'', message = Some ''check the cables''\<rparr> \<and>
   currentInstruction (run (busy_until 8000) fix_buzz_shown) = None \<and>
   stops ChannelClose \<and>
   currentInstruction
     (run (busy_until 7999 @ ChannelClose # [FrameTick, ClockReaches 60000]) fix_buzz_shown) =
     Some \<lparr>action = Some ''fix_buzz'', message = Some ''check the cables''\<rparr> \<and>
   expiry_tracked (advance_to 3000 fix_buzz_shown) \<and>
   now (advance_to 3000 fix_buzz_shown) = 3000 \<and>
   currentInstruction success_shown = Some \<lparr>action = Some ''success'', message = Some ''done''\<rparr> \<and>
   armed_ids success_shown = {1, 3} \<and>
   currentInstruction (advance_to 10999 success_shown) =
     Some \<lparr>action = Some ''success'', message = Some ''done''\<rparr> \<and>
   currentInstruction (advance_to 11000 success_shown) = None"
proof -
  let ?fix = "\<lparr>action = Some ''fix_buzz'', message = Some ''check the cables''\<rparr>"
  let ?ok = "\<lparr>action = Some ''success'', message = Some ''done''\<rparr>"
  have t0: "expiry_tracked opened_session"
    unfolding opened_session_def fresh_session_def by (rule expiry_tracked_reachable)
  have n0: "now opened_session = 0"
    by (simp add: opened_session_eq fresh_session_def initial_session_def)
  have shown: "fix_buzz_shown =
      opened_session
        \<lparr>currentInstruction := Some ?fix,
         timers := [\<lparr>timer_id = 1, kind = Interval (2000 / 3)\<rparr>,
                    \<lparr>timer_id = 2, kind = Timeout 8000\<rparr>],
         lastTimerId := 2, instructionTimeoutRef := Some 2\<rparr>"
    by (simp add: fix_buzz_shown_def handleInstruction_eq truthy_set_def)
       (simp add: opened_session_eq fresh_session_def initial_session_def)
  note first = instruction_expiry [OF t0, of ?fix, folded fix_buzz_shown_def]
  have f1: "currentInstruction fix_buzz_shown = Some ?fix"
    and f2: "currentInstruction (advance_to 7999 fix_buzz_shown) = Some ?fix"
    and f3: "currentInstruction (advance_to 8000 fix_buzz_shown) = None"
    using first [of 7999] first [of 8000] by (simp_all add: n0)
  have by1: "list_all bystander (busy_until t)" for t
    by (simp add: busy_until_def replaces_def interruption_message_def)
  have nw: "now (run (busy_until t) fix_buzz_shown) = max 0 t" for t
    unfolding run_now [OF by1]
    by (simp add: busy_until_def shown n0)
  have r1: "currentInstruction (run (busy_until 7999) fix_buzz_shown) = Some ?fix"
    using first [of _ "busy_until 7999"] by1 [of 7999] by (simp add: n0 nw)
  have r2: "currentInstruction (run (busy_until 8000) fix_buzz_shown) = None"
    using first [of _ "busy_until 8000"] by1 [of 8000] by (simp add: n0 nw)
  have st: "stops ChannelClose" by simp
  have later: "list_all (\<lambda>e. \<not> sets_instruction e) [FrameTick, ClockReaches 60000]" by simp
  have r3: "currentInstruction
     (run (busy_until 7999 @ ChannelClose # [FrameTick, ClockReaches 60000]) fix_buzz_shown) =
     Some ?fix"
    using first [of _ "busy_until 7999" ChannelClose "[FrameTick, ClockReaches 60000]"]
      by1 [of 7999] st later
    by (simp add: n0 nw)
  have idle: "advance_to 3000 fix_buzz_shown = fix_buzz_shown\<lparr>now := 3000\<rparr>"
    by (simp add: advance_to_idle shown n0)
  have t1: "expiry_tracked (advance_to 3000 fix_buzz_shown)"
    using first [of 0] by (simp add: idle expiry_tracked_now)
  have n1: "now (advance_to 3000 fix_buzz_shown) = 3000" by (simp add: idle)
  note second = instruction_expiry [OF t1, of ?ok, folded success_shown_def]
  have s1: "currentInstruction success_shown = Some ?ok"
    and s2: "currentInstruction (advance_to 10999 success_shown) = Some ?ok"
    and s3: "currentInstruction (advance_to 11000 success_shown) = None"
    using second [of 10999] second [of 11000] by (simp_all add: n1)
  have ids: "armed_ids success_shown = {1, 3}"
    unfolding success_shown_def idle
    by (simp add: shown handleInstruction_eq truthy_set_def armed_ids_def)
  from t0 f1 f2 f3 by1 [of 7999] r1 r2 st r3 t1 n1 s1 ids s2 s3 show ?thesis by blast
qed

section \<open>Tool calls\<close>

lemma onmessage_instruction:
  assumes "toolCall_branch msg st = Inr st1"
  shows "currentInstruction (outcome_state (onmessage msg clock dur st)) = currentInstruction st1"
    "outbox (outcome_state (onmessage msg clock dur st)) = outbox st1"
  by (simp_all add: onmessage_eq [OF assms] onmessage_resume_def interrupted_branch_def Let_def)

text \<open>
  Claim C7. When a message carries several function calls, only the first is honored:
  the handler does what it would do if the first call were alone. When that call names
  the instruction tool and has arguments, its instruction becomes the current one and
  one tool response carrying that call's identifier is sent.
\<close>

theorem first_function_call_only:
  assumes calls: "toolCall msg = Some (Some (call # rest))"
    and name: "fc_name call = Some ''displayInstruction''"
    and args: "fc_args call = Some args"
  shows "onmessage msg clock dur st =
           onmessage (msg\<lparr>toolCall := Some (Some [call])\<rparr>) clock dur st \<and>
         (\<exists>st'. onmessage msg clock dur st = Finished st') \<and>
         currentInstruction (outcome_state (onmessage msg clock dur st)) =
           Some \<lparr>action = args ''action'', message = args ''message''\<rparr> \<and>
         outbox (outcome_state (onmessage msg clock dur st)) =
           outbox st @ [ToolResponse (fc_id call) ''displayInstruction''
                          ''Instruction displayed to user'']"
proof -
  let ?st1 = "(handleInstruction \<lparr>action = args ''action'', message = args ''message''\<rparr> st)
                 \<lparr>outbox := outbox st @
                    [ToolResponse (fc_id call) ''displayInstruction''
                       ''Instruction displayed to user'']\<rparr>"
  have tool: "toolCall_branch msg st = Inr ?st1"
    using calls name args by (simp add: toolCall_branch_def handleInstruction_eq)
  have tool1: "toolCall_branch (msg\<lparr>toolCall := Some (Some [call])\<rparr>) st = Inr ?st1"
    using name args by (simp add: toolCall_branch_def handleInstruction_eq)
  have same: "onmessage msg clock dur st =
           onmessage (msg\<lparr>toolCall := Some (Some [call])\<rparr>) clock dur st"
    by (simp add: onmessage_eq [OF tool] onmessage_eq [OF tool1] onmessage_resume_def
          interrupted_branch_def)
  have fin: "\<exists>st'. onmessage msg clock dur st = Finished st'"
    by (simp add: onmessage_eq [OF tool])
  have ins: "currentInstruction (outcome_state (onmessage msg clock dur st)) =
           Some \<lparr>action = args ''action'', message = args ''message''\<rparr>"
    by (simp add: onmessage_instruction(1) [OF tool] handleInstruction_eq)
  have ack: "outbox (outcome_state (onmessage msg clock dur st)) =
           outbox st @ [ToolResponse (fc_id call) ''displayInstruction''
                          ''Instruction displayed to user'']"
    by (simp add: onmessage_instruction(2) [OF tool])
  show ?thesis by (rule conjI [OF same conjI [OF fin conjI [OF ins ack]]])
qed

theorem first_function_call_only_witness:
  "toolCall two_calls_message = Some (Some [reduce_echo_call, increase_echo_call]) \<and>
   fc_name reduce_echo_call = Some ''displayInstruction'' \<and>
   currentInstruction (outcome_state (onmessage two_calls_message 0 0 listening_session)) =
     Some \<lparr>action = Some ''reduce_echo'', message = Some ''turn the echo knob left''\<rparr> \<and>
   outbox (outcome_state (onmessage two_calls_message 0 0 listening_session)) =
     [ToolResponse (Some ''call-1'') ''displayInstruction'' ''Instruction displayed to user'']"
proof -
  have calls: "toolCall two_calls_message = Some (Some (reduce_echo_call # [increase_echo_call]))"
    by (simp add: two_calls_message_def)
  have name: "fc_name reduce_echo_call = Some ''displayInstruction''"
    and args: "fc_args reduce_echo_call =
      Some [''action'' \<mapsto> ''reduce_echo'', ''message'' \<mapsto> ''turn the echo knob left'']"
    and cid: "fc_id reduce_echo_call = Some ''call-1''"
    by (simp_all add: reduce_echo_call_def)
  have box: "outbox listening_session = []" by (simp add: sample_defs)
  note first = first_function_call_only [OF calls name args, of 0 0 listening_session]
  have ins: "currentInstruction (outcome_state (onmessage two_calls_message 0 0 listening_session)) =
     Some \<lparr>action = Some ''reduce_echo'', message = Some ''turn the echo knob left''\<rparr>"
    using first [THEN conjunct2, THEN conjunct2, THEN conjunct1] by simp
  have ack: "outbox (outcome_state (onmessage two_calls_message 0 0 listening_session)) =
     [ToolResponse (Some ''call-1'') ''displayInstruction'' ''Instruction displayed to user'']"
    using first [THEN conjunct2, THEN conjunct2, THEN conjunct2] by (simp add: cid box)
  from calls name ins ack show ?thesis by simp
qed

text \<open>
  Claim C6 says that a call of the instruction tool whose arguments lack \<^verbatim>\<open>action\<close> or
  \<^verbatim>\<open>message\<close> is dropped silently and never crashes the user interface. The code does
  not check the arguments. With \<^verbatim>\<open>action\<close> missing, the handler sets an instruction
  whose \<^verbatim>\<open>action\<close> is \<^verbatim>\<open>undefined\<close> and acknowledges the call, and the next render of the
  instruction card throws a \<^verbatim>\<open>TypeError\<close>; with no \<^verbatim>\<open>args\<close> at all the handler itself
  throws before anything is set or acknowledged.
\<close>

theorem missing_action_crashes_overlay:
  "(\<exists>st'. onmessage malformed_call_message 0 0 listening_session = Finished st' \<and>
          currentInstruction st' =
            Some \<lparr>action = None, message = Some ''turn the echo knob left''\<rparr> \<and>
          outbox st' =
            [ToolResponse (Some ''call-1'') ''displayInstruction''
               ''Instruction displayed to user''] \<and>
          InstructionOverlay (currentInstruction st') = Inl TypeError) \<and>
   onmessage argless_call_message 0 0 listening_session = Threw TypeError listening_session"
  by (simp add: malformed_call_message_def argless_call_message_def onmessage_def
        onmessage_begin_def toolCall_branch_def handleInstruction_eq interrupted_branch_def
        InstructionOverlay_def sample_defs)

section \<open>Frame sampling\<close>

lemma frame_tick_ready:
  "canvasRef st = Some (True, w, h) \<Longrightarrow> videoRef st = Some (vw, vh) \<Longrightarrow>
   frame_tick st = st\<lparr>canvasRef := Some (True, vw div 2, vh div 2),
                      pendingBlobs := pendingBlobs st @ [(vw div 2, vh div 2)]\<rparr>"
  by (simp add: frame_tick_def)

lemma frame_ticks_count:
  "canvasRef st = Some (True, w, h) \<Longrightarrow> videoRef st = Some (vw, vh) \<Longrightarrow>
   pendingBlobs ((frame_tick ^^ k) st) = pendingBlobs st @ replicate k (vw div 2, vh div 2) \<and>
   videoRef ((frame_tick ^^ k) st) = Some (vw, vh) \<and>
   (\<exists>w' h'. canvasRef ((frame_tick ^^ k) st) = Some (True, w', h'))"
proof (induction k)
  case 0
  then show ?case by simp
next
  case (Suc k)
  from Suc obtain w' h' where c: "canvasRef ((frame_tick ^^ k) st) = Some (True, w', h')"
    and v: "videoRef ((frame_tick ^^ k) st) = Some (vw, vh)"
    and n: "pendingBlobs ((frame_tick ^^ k) st) =
              pendingBlobs st @ replicate k (vw div 2, vh div 2)"
    by blast
  show ?case by (simp add: frame_tick_ready [OF c v] n v replicate_append_same)
qed

lemma frame_tick_skips:
  "(frame_tick st = st) =
     (videoRef st = None \<or> canvasRef st = None \<or> (\<exists>w h. canvasRef st = Some (False, w, h)))"
proof (cases "videoRef st = None \<or> canvasRef st = None \<or> (\<exists>w h. canvasRef st = Some (False, w, h))")
  case True
  then have "frame_tick st = st"
    by (auto simp add: frame_tick_def split: option.splits prod.splits)
  with True show ?thesis by simp
next
  case False
  then obtain w h vw vh where c: "canvasRef st = Some (True, w, h)"
    and v: "videoRef st = Some (vw, vh)"
    by (cases "canvasRef st"; cases "videoRef st") auto
  have "pendingBlobs (frame_tick st) \<noteq> pendingBlobs st"
    by (simp add: frame_tick_ready [OF c v])
  then have "frame_tick st \<noteq> st" by auto
  with False show ?thesis by simp
qed

text \<open>
  Claim C8 has a tick skipped entirely, with nothing queued, when no current video frame
  is available. The tick tests for the video element, the canvas and the 2d context
  (lines 310-313), not for a frame. When the channel opens before the video has its
  first frame, \<^verbatim>\<open>videoWidth\<close> and \<^verbatim>\<open>videoHeight\<close> are 0: the tick sizes the canvas to
  0 by 0 and calls \<^verbatim>\<open>toBlob\<close>, and so does the next one.
\<close>

theorem tick_without_frame:
  "videoRef opened_session = Some (0, 0) \<and>
   canvasRef opened_session = Some (True, 300, 150) \<and>
   pendingBlobs opened_session = [] \<and>
   step FrameTick opened_session =
     opened_session\<lparr>canvasRef := Some (True, 0, 0), pendingBlobs := [(0, 0)]\<rparr> \<and>
   step FrameTick opened_session \<noteq> opened_session \<and>
   pendingBlobs (run [FrameTick, FrameTick] opened_session) = [(0, 0), (0, 0)]"
proof -
  have v: "videoRef opened_session = Some (0, 0)"
    and c: "canvasRef opened_session = Some (True, 300, 150)"
    and p: "pendingBlobs opened_session = []"
    and armed: "list_ex (\<lambda>e. \<not> is_timeout e) (timers opened_session)"
    by (simp_all add: opened_session_eq fresh_session_def initial_session_def)
  have one: "step FrameTick opened_session =
     opened_session\<lparr>canvasRef := Some (True, 0, 0), pendingBlobs := [(0, 0)]\<rparr>"
    using armed by (simp add: frame_tick_ready [OF c v] p)
  have differs: "step FrameTick opened_session \<noteq> opened_session"
  proof
    assume "step FrameTick opened_session = opened_session"
    then have "opened_session\<lparr>canvasRef := Some (True, 0, 0), pendingBlobs := [(0, 0)]\<rparr> =
        opened_session"
      unfolding one .
    then have "pendingBlobs
        (opened_session\<lparr>canvasRef := Some (True, 0, 0), pendingBlobs := [(0, 0)]\<rparr>) =
        pendingBlobs opened_session"
      by (rule arg_cong)
    then show False by (simp add: p)
  qed
  have two: "pendingBlobs (run [FrameTick, FrameTick] opened_session) = [(0, 0), (0, 0)]"
    using armed by (simp add: frame_tick_def v c p)
  from v c p one differs two show ?thesis by blast
qed

text \<open>
  Claim C8, amended. A tick of the frame interval starts at most one compression and
  returns without waiting for it: it never reads the compressions in flight, leaves the
  interval armed and sends nothing itself, so ticks that follow one another while
  earlier compressions are still running each start their own. A tick is skipped
  entirely exactly when the video element or the canvas is missing or the canvas gives
  no 2d context. When the video element is there but has no frame yet, the tick is not
  skipped: it sizes the canvas to 0 by 0 and starts a compression, which yields no blob,
  and a compression that yields no blob sends nothing. The interval is armed with the
  period 1000 / 1.5 ms, as the engine computes the quotient.
\<close>

theorem frame_sampler_ticks:
  "(\<exists>new. pendingBlobs (frame_tick st) = pendingBlobs st @ new \<and> length new \<le> 1) \<and>
   timers (frame_tick st) = timers st \<and>
   outbox (frame_tick st) = outbox st \<and>
   frame_tick (st\<lparr>pendingBlobs := jobs\<rparr>) =
     (frame_tick st)\<lparr>pendingBlobs :=
        jobs @ drop (length (pendingBlobs st)) (pendingBlobs (frame_tick st))\<rparr> \<and>
   (canvasRef st = Some (True, w, h) \<and> videoRef st = Some (vw, vh) \<longrightarrow>
      pendingBlobs ((frame_tick ^^ k) st) =
        pendingBlobs st @ replicate k (vw div 2, vh div 2)) \<and>
   (frame_tick st = st) =
     (videoRef st = None \<or> canvasRef st = None \<or>
      (\<exists>w h. canvasRef st = Some (False, w, h))) \<and>
   (canvasRef st = Some (True, w, h) \<and> videoRef st = Some (0, 0) \<longrightarrow>
      frame_tick st =
        st\<lparr>canvasRef := Some (True, 0, 0), pendingBlobs := pendingBlobs st @ [(0, 0)]\<rparr>) \<and>
   (pendingBlobs st = (bw, bh) # rest \<and> (bw = 0 \<or> bh = 0) \<longrightarrow>
      toBlob_done blob st = st\<lparr>pendingBlobs := rest\<rparr>) \<and>
   outbox (toBlob_done None st) = outbox st \<and>
   frameIntervalRef (startVideoStreaming st) = Some (Suc (lastTimerId st)) \<and>
   timers (startVideoStreaming st) =
     timers st @
       [\<lparr>timer_id = Suc (lastTimerId st), kind = Interval (divDoubles st 1000 FPS)\<rparr>]"
proof -
  have a: "\<exists>new. pendingBlobs (frame_tick st) = pendingBlobs st @ new \<and> length new \<le> 1"
    by (simp add: frame_tick_def split: option.splits prod.splits)
  have a': "timers (frame_tick st) = timers st" "outbox (frame_tick st) = outbox st"
    by (simp_all add: frame_tick_def split: option.splits prod.splits)
  have b: "frame_tick (st\<lparr>pendingBlobs := jobs\<rparr>) =
     (frame_tick st)\<lparr>pendingBlobs :=
        jobs @ drop (length (pendingBlobs st)) (pendingBlobs (frame_tick st))\<rparr>"
    by (simp add: frame_tick_def split: option.splits prod.splits)
  have c: "canvasRef st = Some (True, w, h) \<and> videoRef st = Some (vw, vh) \<longrightarrow>
      pendingBlobs ((frame_tick ^^ k) st) =
        pendingBlobs st @ replicate k (vw div 2, vh div 2)"
    using frame_ticks_count [of st w h vw vh k] by blast
  have d: "(frame_tick st = st) =
     (videoRef st = None \<or> canvasRef st = None \<or>
      (\<exists>w h. canvasRef st = Some (False, w, h)))"
    by (rule frame_tick_skips)
  have d': "canvasRef st = Some (True, w, h) \<and> videoRef st = Some (0, 0) \<longrightarrow>
      frame_tick st =
        st\<lparr>canvasRef := Some (True, 0, 0), pendingBlobs := pendingBlobs st @ [(0, 0)]\<rparr>"
    using frame_tick_ready [of st w h 0 0] by simp
  have e: "pendingBlobs st = (bw, bh) # rest \<and> (bw = 0 \<or> bh = 0) \<longrightarrow>
      toBlob_done blob st = st\<lparr>pendingBlobs := rest\<rparr>"
    by (auto simp add: toBlob_done_def)
  have e': "outbox (toBlob_done None st) = outbox st"
    by (simp add: toBlob_done_def Let_def split: list.splits prod.splits)
  have f: "frameIntervalRef (startVideoStreaming st) = Some (Suc (lastTimerId st))"
    "timers (startVideoStreaming st) =
     timers st @
       [\<lparr>timer_id = Suc (lastTimerId st), kind = Interval (divDoubles st 1000 FPS)\<rparr>]"
    by (simp_all add: startVideoStreaming_def setInterval_def)
  from a a' b c d d' e e' f show ?thesis by blast
qed

theorem frame_sampler_ticks_witness:
  "canvasRef connected_session = Some (True, 300, 150) \<and>
   videoRef connected_session = Some (640, 480) \<and>
   pendingBlobs connected_session = [] \<and>
   pendingBlobs (frame_tick connected_session) = [(320, 240)] \<and>
   canvasRef (frame_tick connected_session) = Some (True, 320, 240) \<and>
   pendingBlobs ((frame_tick ^^ 3) connected_session) = [(320, 240), (320, 240), (320, 240)] \<and>
   armed_ids (frame_tick connected_session) = {1, 2} \<and>
   frame_tick (connected_session\<lparr>videoRef := None\<rparr>) = connected_session\<lparr>videoRef := None\<rparr> \<and>
   frame_tick (connected_session\<lparr>canvasRef := Some (False, 300, 150)\<rparr>) =
     connected_session\<lparr>canvasRef := Some (False, 300, 150)\<rparr> \<and>
   frame_tick opened_session =
     opened_session\<lparr>canvasRef := Some (True, 0, 0), pendingBlobs := [(0, 0)]\<rparr> \<and>
   toBlob_done (Some ''jpeg'') (frame_tick opened_session) =
     opened_session\<lparr>canvasRef := Some (True, 0, 0), pendingBlobs := []\<rparr> \<and>
   outbox (toBlob_done (Some ''jpeg'') (frame_tick opened_session)) = [] \<and>
   outbox (toBlob_done (Some ''jpeg'') (frame_tick connected_session)) =
     [RealtimeImage ''image/jpeg'' ''jpeg''] \<and>
   outbox (run [VideoFrame 640 480, FrameTick, BlobDone (Some ''jpeg'')] opened_session) =
     [RealtimeImage ''image/jpeg'' ''jpeg''] \<and>
   timers (startVideoStreaming fresh_session) =
     [\<lparr>timer_id = 1, kind = Interval (2000 / 3)\<rparr>]"
proof -
  have c: "canvasRef connected_session = Some (True, 300, 150)"
    and v: "videoRef connected_session = Some (640, 480)"
    and p: "pendingBlobs connected_session = []"
    and ids: "armed_ids connected_session = {1, 2}"
    and box: "outbox connected_session = []"
    by (auto simp add: sample_defs)
  have vo: "videoRef opened_session = Some (0, 0)"
    and co: "canvasRef opened_session = Some (True, 300, 150)"
    and po: "pendingBlobs opened_session = []"
    and bo: "outbox opened_session = []"
    by (simp_all add: opened_session_eq fresh_session_def initial_session_def)
  note th = frame_sampler_ticks [of connected_session _ 300 150 640 480 3]
  have three: "pendingBlobs ((frame_tick ^^ 3) connected_session) =
      [(320, 240), (320, 240), (320, 240)]"
    using th c v p by (simp add: numeral_3_eq_3)
  have tm: "armed_ids (frame_tick connected_session) = {1, 2}"
    using th ids by (simp add: armed_ids_def)
  have one: "pendingBlobs (frame_tick connected_session) = [(320, 240)]"
    "canvasRef (frame_tick connected_session) = Some (True, 320, 240)"
    by (simp_all add: frame_tick_ready [OF c v] p)
  have skip1: "frame_tick (connected_session\<lparr>videoRef := None\<rparr>) =
      connected_session\<lparr>videoRef := None\<rparr>"
    using frame_sampler_ticks [of "connected_session\<lparr>videoRef := None\<rparr>"] by simp
  have skip2: "frame_tick (connected_session\<lparr>canvasRef := Some (False, 300, 150)\<rparr>) =
     connected_session\<lparr>canvasRef := Some (False, 300, 150)\<rparr>"
    using frame_sampler_ticks [of "connected_session\<lparr>canvasRef := Some (False, 300, 150)\<rparr>"]
    by simp
  have zero: "frame_tick opened_session =
     opened_session\<lparr>canvasRef := Some (True, 0, 0), pendingBlobs := [(0, 0)]\<rparr>"
    using frame_sampler_ticks [of opened_session _ 300 150] vo co po by simp
  have null: "toBlob_done (Some ''jpeg'') (frame_tick opened_session) =
     opened_session\<lparr>canvasRef := Some (True, 0, 0), pendingBlobs := []\<rparr>"
    using frame_sampler_ticks [of "frame_tick opened_session" _ _ _ _ _ _ 0 0 "[]" "Some ''jpeg''"]
    by (simp add: zero)
  have unsent: "outbox (toBlob_done (Some ''jpeg'') (frame_tick opened_session)) = []"
    by (simp add: null bo)
  have sent: "outbox (toBlob_done (Some ''jpeg'') (frame_tick connected_session)) =
     [RealtimeImage ''image/jpeg'' ''jpeg'']"
    by (simp add: frame_tick_ready [OF c v] p toBlob_done_def box)
  have armed: "list_ex (\<lambda>e. \<not> is_timeout e) (timers opened_session)"
    by (simp add: opened_session_eq)
  have framed: "video_frame 640 480 opened_session = opened_session\<lparr>videoRef := Some (640, 480)\<rparr>"
    by (simp add: video_frame_def vo)
  have reached: "outbox (run [VideoFrame 640 480, FrameTick, BlobDone (Some ''jpeg'')]
        opened_session) = [RealtimeImage ''image/jpeg'' ''jpeg'']"
    using armed by (simp add: framed frame_tick_def co po toBlob_done_def bo)
  have period: "timers (startVideoStreaming fresh_session) =
     [\<lparr>timer_id = 1, kind = Interval (2000 / 3)\<rparr>]"
    using frame_sampler_ticks [of fresh_session]
    by (simp add: fresh_session_def initial_session_def FPS_def)
  from c v p one three tm skip1 skip2 zero null unsent sent reached period
  show ?thesis by blast
qed

section \<open>Audio encoding\<close>

lemma toward_zero_bounds:
  assumes "- 32767 \<le> r" "r \<le> 32767"
  shows "- 32767 \<le> toward_zero r" "toward_zero r \<le> 32767"
proof -
  show "- 32767 \<le> toward_zero r"
    using assms by (auto simp add: toward_zero_def le_ceiling_iff le_floor_iff)
  show "toward_zero r \<le> 32767"
    using assms by (auto simp add: toward_zero_def ceiling_le_iff floor_le_iff)
qed

lemma clamp_scaled:
  "- 32767 \<le> max (- 1) (min 1 x) * (32767::real)" "max (- 1) (min 1 x) * (32767::real) \<le> 32767"
  by (auto simp add: max_def min_def)

lemma sint_16: "- 32768 \<le> k \<Longrightarrow> k < 32768 \<Longrightarrow> sint (word_of_int k :: 16 word) = k"
  by (simp add: sint_sbintrunc' signed_take_bit_int_eq_self)

lemma sint_floatTo16:
  "sint (floatTo16 x) = toward_zero (max (- 1) (min 1 x) * 32767)"
proof -
  let ?k = "toward_zero (max (- 1) (min 1 x) * 32767)"
  have "- 32767 \<le> ?k" "?k \<le> 32767"
    using toward_zero_bounds [OF clamp_scaled] by simp_all
  then show ?thesis by (simp add: floatTo16_def sint_16)
qed

text \<open>
  Claim C9. The encoder turns each sample into a 16-bit signed integer by clamping it to
  [-1, 1] and scaling by 32767, and every captured block gives one chunk with one
  integer per sample, sent as PCM audio at 16 kHz. A block of 4096 zeros gives 4096
  zeros, 1.0 gives 32767 and -1.0 gives -32767.
\<close>

theorem audio_encoder:
  "samples (createPcmBlob inputData) = map floatTo16 inputData \<and>
   length (samples (createPcmBlob inputData)) = length inputData \<and>
   mimeType (createPcmBlob inputData) = ''audio/pcm;rate=16000'' \<and>
   sint (floatTo16 x) = toward_zero (max (- 1) (min 1 x) * 32767) \<and>
   - 32767 \<le> sint (floatTo16 x) \<and> sint (floatTo16 x) \<le> 32767 \<and>
   bufferSize = 4096 \<and>
   samples (createPcmBlob (replicate bufferSize 0)) = replicate bufferSize 0 \<and>
   sint (floatTo16 1) = 32767 \<and>
   sint (floatTo16 (- 1)) = - 32767 \<and>
   outbox (onaudioprocess inputData st) = outbox st @ [RealtimeAudio (createPcmBlob inputData)]"
proof -
  have a: "samples (createPcmBlob inputData) = map floatTo16 inputData"
    "length (samples (createPcmBlob inputData)) = length inputData"
    "mimeType (createPcmBlob inputData) = ''audio/pcm;rate=16000''"
    by (simp_all add: createPcmBlob_def)
  have b: "sint (floatTo16 x) = toward_zero (max (- 1) (min 1 x) * 32767)"
    by (rule sint_floatTo16)
  have c: "- 32767 \<le> sint (floatTo16 x)" "sint (floatTo16 x) \<le> 32767"
    using toward_zero_bounds [OF clamp_scaled, of x] by (simp_all add: sint_floatTo16)
  have z: "floatTo16 0 = 0" by (simp add: floatTo16_def toward_zero_def)
  have d: "bufferSize = 4096"
    "samples (createPcmBlob (replicate bufferSize 0)) = replicate bufferSize 0"
    by (simp_all add: createPcmBlob_def bufferSize_def z)
  have e: "sint (floatTo16 1) = 32767" "sint (floatTo16 (- 1)) = - 32767"
    by (simp_all add: sint_floatTo16 toward_zero_def)
  have f: "outbox (onaudioprocess inputData st) = outbox st @ [RealtimeAudio (createPcmBlob inputData)]"
    by (simp add: onaudioprocess_def)
  from a b c d e f show ?thesis by blast
qed

theorem audio_encoder_witness:
  "map sint (samples (createPcmBlob [0, 1, - 1, 1 / 2, 3, - 7 / 2])) =
     [0, 32767, - 32767, 16383, 32767, - 32767] \<and>
   length (samples (createPcmBlob (replicate 4096 0))) = 4096 \<and>
   outbox (onaudioprocess (replicate 4096 0) listening_session) =
     [RealtimeAudio \<lparr>mimeType = ''audio/pcm;rate=16000'', samples = replicate 4096 0\<rparr>]"
proof -
  note th = audio_encoder [of "replicate 4096 0" 0 listening_session, unfolded bufferSize_def]
  have box: "outbox listening_session = []" by (simp add: sample_defs)
  have blob: "createPcmBlob (replicate 4096 0) =
      \<lparr>mimeType = ''audio/pcm;rate=16000'', samples = replicate 4096 0\<rparr>"
    using th by (simp add: createPcmBlob_def)
  have len: "length (samples (createPcmBlob (replicate 4096 0))) = 4096"
    using th by simp
  have out: "outbox (onaudioprocess (replicate 4096 0) listening_session) =
     [RealtimeAudio \<lparr>mimeType = ''audio/pcm;rate=16000'', samples = replicate 4096 0\<rparr>]"
    using th by (simp add: box blob)
  have vals: "map sint (samples (createPcmBlob [0, 1, - 1, 1 / 2, 3, - 7 / 2])) =
     [0, 32767, - 32767, 16383, 32767, - 32767]"
    by (simp add: createPcmBlob_def sint_floatTo16 toward_zero_def)
  from vals len out show ?thesis by blast
qed

section \<open>Terminal transitions\<close>

text \<open>
  Claim C4 says that every terminal transition of the session releases all timers,
  intervals and media tracks. The close of the channel does, by running
  \<^verbatim>\<open>stopSession\<close>. The error callback of the channel (lines 286-290) only sets the
  message and the status: from a session in the middle of a call it leaves both tracks
  live, the frame interval and the expiry timer armed and both audio contexts open, and
  a captured audio block is still encoded and sent; they are released only when the
  component unmounts (or the channel closes). A setup failure for a missing key comes
  before any device is acquired and has nothing to release.
\<close>

theorem error_transition_keeps_resources:
  "liveTracks connected_session = {1, 2} \<and>
   armed_ids connected_session = {1, 2} \<and>
   status (onerror connected_session) = ERROR \<and>
   liveTracks (onerror connected_session) = {1, 2} \<and>
   armed_ids (onerror connected_session) = {1, 2} \<and>
   closedContexts (onerror connected_session) = {} \<and>
   outbox (onaudioprocess [0] (onerror connected_session)) =
     [RealtimeAudio (createPcmBlob [0])] \<and>
   status (onclose connected_session) = DISCONNECTED \<and>
   liveTracks (onclose connected_session) = {} \<and>
   armed_ids (onclose connected_session) = {} \<and>
   closedContexts (onclose connected_session) = {1, 2} \<and>
   liveTracks (unmount (onerror connected_session)) = {} \<and>
   armed_ids (unmount (onerror connected_session)) = {} \<and>
   status (connect_catch ''MISSING_API_KEY'' (connect_begin fresh_session)) = ERROR \<and>
   liveTracks (connect_catch ''MISSING_API_KEY'' (connect_begin fresh_session)) = {} \<and>
   armed_ids (connect_catch ''MISSING_API_KEY'' (connect_begin fresh_session)) = {}"
proof -
  have before: "liveTracks connected_session = {1, 2}" "armed_ids connected_session = {1, 2}"
    by (auto simp add: sample_defs)
  have err: "status (onerror connected_session) = ERROR"
    "liveTracks (onerror connected_session) = {1, 2}"
    "armed_ids (onerror connected_session) = {1, 2}"
    "closedContexts (onerror connected_session) = {}"
    "outbox (onaudioprocess [0] (onerror connected_session)) =
       [RealtimeAudio (createPcmBlob [0])]"
    by (auto simp add: onerror_def render_error_def onaudioprocess_def sample_defs)
  have close: "status (onclose connected_session) = DISCONNECTED"
    "liveTracks (onclose connected_session) = {}"
    "armed_ids (onclose connected_session) = {}"
    "closedContexts (onclose connected_session) = {1, 2}"
    by (auto simp add: onclose_def stopSession_eq sample_defs)
  have late: "liveTracks (unmount (onerror connected_session)) = {}"
    "armed_ids (unmount (onerror connected_session)) = {}"
    by (auto simp add: unmount_def onerror_def render_error_def stopSession_eq sample_defs)
  have early: "status (connect_catch ''MISSING_API_KEY'' (connect_begin fresh_session)) = ERROR"
    "liveTracks (connect_catch ''MISSING_API_KEY'' (connect_begin fresh_session)) = {}"
    "armed_ids (connect_catch ''MISSING_API_KEY'' (connect_begin fresh_session)) = {}"
    by (simp_all add: connect_catch_def connect_begin_def render_error_def sample_defs)
  from before err close late early show ?thesis by simp
qed

end
